theory Spec2Isabelle
  imports Main "HOL-Library.List_Lexorder" "HOL-Library.Char_ord" "HOL-Library.Sublist"
begin

section \<open>The migration tool: data model\<close>

text \<open>
  A shallow embedding of \<^verbatim>\<open>src/migrations_tool/migration.py\<close>. File names are
  strings, compared as Python compares \<^verbatim>\<open>str\<close>: lexicographically, character
  by character (the order of \<^theory_text>\<open>List_Lexorder\<close> over \<^theory_text>\<open>Char_ord\<close>).
\<close>

subsection \<open>Exceptions\<close>

text \<open>
  Every exception the modelled code can raise is a value. \<open>ValueError\<close> carries the
  message the source builds; \<open>ValueError_index\<close> is the \<open>ValueError\<close> raised by
  \<^verbatim>\<open>list.index\<close>, carrying the note the source adds to it. \<open>Raised\<close> is whatever a
  migration's own \<^verbatim>\<open>upgrade\<close>/\<^verbatim>\<open>downgrade\<close> function raises, propagated as it
  is. \<open>OperationalError\<close> and \<open>IntegrityError\<close> are the database's errors.
\<close>

datatype 'e py_error =
    ValueError string
  | ValueError_index string
  | FileNotFoundError
  | TypeError
  | MigrationsToolError
  | OperationalError
  | IntegrityError
  | Raised 'e

subsection \<open>The migrations directory\<close>

text \<open>
  A migration module exposes \<^verbatim>\<open>upgrade(session)\<close> and \<^verbatim>\<open>downgrade(session)\<close>. The
  two functions are opaque to the tool; they are modelled as transformers of the user
  schema \<open>'s\<close> that either raise \<open>'e\<close> or return the changed schema. They run on the
  session's connection, inside the transaction the tool opened.
\<close>

record ('s, 'e) MigrationModule =
  upgrade :: "'s \<Rightarrow> 'e + 's"
  downgrade :: "'s \<Rightarrow> 'e + 's"

text \<open>
  What a path in the directory holds: a sub-directory, a file that loads as a module
  matching the protocol, or a file that does not.
\<close>

datatype ('s, 'e) artifact =
    Directory
  | ModuleFile "('s, 'e) MigrationModule"
  | OtherFile

record ('s, 'e) dir_entry =
  name :: string
  artifact :: "('s, 'e) artifact"

definition is_file :: "('s, 'e) dir_entry \<Rightarrow> bool" where
  "is_file f = (case artifact f of Directory \<Rightarrow> False | _ \<Rightarrow> True)"

definition startswith :: "string \<Rightarrow> string \<Rightarrow> bool" where
  "startswith s p = (take (length p) s = p)"

text \<open>
  \<^verbatim>\<open>sorted(f.name for f in self.migrations_dir.iterdir()
         if f.is_file() and not f.name.startswith("__") and not f.name == ".gitkeep")\<close>
\<close>

definition is_listed :: "('s, 'e) dir_entry \<Rightarrow> bool" where
  "is_listed f = (is_file f \<and> \<not> startswith (name f) ''__'' \<and> \<not> name f = ''.gitkeep'')"

definition list_existing_migration_files :: "('s, 'e) dir_entry list \<Rightarrow> string list" where
  "list_existing_migration_files migrations_dir =
     sort (map name (filter is_listed migrations_dir))"

subsection \<open>Timestamps and generated file names\<close>

text \<open>
  A \<^verbatim>\<open>datetime\<close> in UTC, with the fields Python keeps. Two of them compare as
  Python compares aware datetimes of one time zone: field by field, the year first.
\<close>

record datetime =
  year :: nat
  month :: nat
  day :: nat
  hour :: nat
  minute :: nat
  second :: nat
  microsecond :: nat

definition datetime_fields :: "datetime \<Rightarrow> nat list" where
  "datetime_fields t = [year t, month t, day t, hour t, minute t, second t, microsecond t]"

definition datetime_less :: "datetime \<Rightarrow> datetime \<Rightarrow> bool" where
  "datetime_less t1 t2 = (datetime_fields t1 < datetime_fields t2)"

text \<open>
  The datetimes \<^verbatim>\<open>strftime\<close> renders with four year digits on every platform:
  years 1000 to 9999 (\<^verbatim>\<open>datetime.MAXYEAR\<close>), the other fields in their ranges.
\<close>

definition valid_datetime :: "datetime \<Rightarrow> bool" where
  "valid_datetime t =
     (1000 \<le> year t \<and> year t \<le> 9999 \<and> 1 \<le> month t \<and> month t \<le> 12
      \<and> 1 \<le> day t \<and> day t \<le> 31 \<and> hour t < 24 \<and> minute t < 60 \<and> second t < 60
      \<and> microsecond t < 1000000)"

definition digit :: "nat \<Rightarrow> char" where
  "digit d = char_of (48 + d)"

text \<open>The decimal digits of \<open>n\<close>, zero-padded to the width \<open>w\<close>.\<close>

fun zero_padded :: "nat \<Rightarrow> nat \<Rightarrow> string" where
  "zero_padded 0 n = []"
| "zero_padded (Suc w) n = zero_padded w (n div 10) @ [digit (n mod 10)]"

text \<open>The directives of \<^verbatim>\<open>strftime\<close> that \<^verbatim>\<open>DATETIME_FMT\<close> uses.\<close>

definition directive :: "char \<Rightarrow> datetime \<Rightarrow> string" where
  "directive c t =
     (if c = CHR ''Y'' then zero_padded 4 (year t)
      else if c = CHR ''m'' then zero_padded 2 (month t)
      else if c = CHR ''d'' then zero_padded 2 (day t)
      else if c = CHR ''H'' then zero_padded 2 (hour t)
      else if c = CHR ''M'' then zero_padded 2 (minute t)
      else if c = CHR ''S'' then zero_padded 2 (second t)
      else if c = CHR ''f'' then zero_padded 6 (microsecond t)
      else [CHR ''%'', c])"

fun strftime :: "string \<Rightarrow> datetime \<Rightarrow> string" where
  "strftime [] t = []"
| "strftime [c] t = [c]"
| "strftime (c # d # fmt) t =
     (if c = CHR ''%'' then directive d t @ strftime fmt t else c # strftime (d # fmt) t)"

definition DATETIME_FMT :: string where
  "DATETIME_FMT = ''%Y%m%d_%H%M_%S%f''"

text \<open>\<^verbatim>\<open>description.replace(' ', '_')\<close>\<close>

definition replace_spaces :: "string \<Rightarrow> string" where
  "replace_spaces description = map (\<lambda>c. if c = CHR '' '' then CHR ''_'' else c) description"

text \<open>
  \<^verbatim>\<open>f"{timestamp.strftime(DATETIME_FMT)}__{description.replace(' ', '_')}.py"\<close>
\<close>

definition migration_filename :: "datetime \<Rightarrow> string \<Rightarrow> string" where
  "migration_filename timestamp description =
     strftime DATETIME_FMT timestamp @ ''__'' @ replace_spaces description @ ''.py''"

subsection \<open>The database and its sessions\<close>

text \<open>
  A row of the table \<^verbatim>\<open>migration_history\<close>; \<open>filename\<close> is its primary key.
\<close>

record history_row =
  filename :: string
  executed_at :: datetime

text \<open>
  The database behind the engine: the user schema, which only the migrations change,
  and the history table, absent (\<open>None\<close>) until it is created. The database supports
  transactional DDL: a rolled back transaction leaves no schema change behind.
\<close>

record 's database =
  schema :: 's
  migration_history :: "history_row list option"

text \<open>
  A session inside its transaction: the connection's working state, and the objects
  added with \<^verbatim>\<open>session.add\<close> that are not flushed yet.
\<close>

record 's session =
  conn :: "'s database"
  new :: "history_row list"

text \<open>
  \<^verbatim>\<open>INSERT\<close> of one row: the database refuses it when the table is missing or the
  primary key is already present.
\<close>

definition insert_row :: "history_row \<Rightarrow> 's database \<Rightarrow> 'e py_error + 's database" where
  "insert_row r db =
     (case migration_history db of
        None \<Rightarrow> Inl OperationalError
      | Some rows \<Rightarrow>
          if filename r \<in> set (map filename rows) then Inl IntegrityError
          else Inr (db\<lparr>migration_history := Some (rows @ [r])\<rparr>))"

fun insert_rows :: "history_row list \<Rightarrow> 's database \<Rightarrow> 'e py_error + 's database" where
  "insert_rows [] db = Inr db"
| "insert_rows (r # rs) db =
     (case insert_row r db of Inl e \<Rightarrow> Inl e | Inr db' \<Rightarrow> insert_rows rs db')"

definition flush :: "'s session \<Rightarrow> 'e py_error + 's session" where
  "flush s =
     (case insert_rows (new s) (conn s) of
        Inl e \<Rightarrow> Inl e
      | Inr db \<Rightarrow> Inr \<lparr>conn = db, new = []\<rparr>)"

text \<open>\<^verbatim>\<open>session.add(record)\<close>: nothing reaches the database before the next flush.\<close>

definition session_add :: "history_row \<Rightarrow> 's session \<Rightarrow> 's session" where
  "session_add record s = s\<lparr>new := new s @ [record]\<rparr>"

text \<open>
  \<^verbatim>\<open>session.execute(...)\<close> of the three statements the tool issues. The session is
  made with \<^verbatim>\<open>autoflush=True\<close>, so each flushes first.
\<close>

definition select_filenames :: "'s session \<Rightarrow> 'e py_error + string list \<times> 's session" where
  "select_filenames s =
     (case flush s of
        Inl e \<Rightarrow> Inl e
      | Inr s' \<Rightarrow>
          (case migration_history (conn s') of
             None \<Rightarrow> Inl OperationalError
           | Some rows \<Rightarrow> Inr (map filename rows, s')))"

definition select_rows :: "'s session \<Rightarrow> 'e py_error + history_row list \<times> 's session" where
  "select_rows s =
     (case flush s of
        Inl e \<Rightarrow> Inl e
      | Inr s' \<Rightarrow>
          (case migration_history (conn s') of
             None \<Rightarrow> Inl OperationalError
           | Some rows \<Rightarrow> Inr (rows, s')))"

definition delete_where_filename :: "string \<Rightarrow> 's session \<Rightarrow> 'e py_error + 's session" where
  "delete_where_filename fname s =
     (case flush s of
        Inl e \<Rightarrow> Inl e
      | Inr s' \<Rightarrow>
          (case migration_history (conn s') of
             None \<Rightarrow> Inl OperationalError
           | Some rows \<Rightarrow>
               Inr (s'\<lparr>conn := (conn s')\<lparr>migration_history :=
                          Some (filter (\<lambda>r. filename r \<noteq> fname) rows)\<rparr>\<rparr>)))"

text \<open>
  \<^verbatim>\<open>with self.Session.begin() as session: body\<close>. The body works on a copy of the
  database. When it raises, the transaction is rolled back and the exception goes on;
  when it returns, the session is flushed and committed, and a failing flush rolls
  back as well.
\<close>

definition Session_begin ::
  "'s database \<Rightarrow> ('s session \<Rightarrow> 'e py_error + 'a \<times> 's session)
     \<Rightarrow> ('e py_error + 'a) \<times> 's database" where
  "Session_begin db body =
     (case body \<lparr>conn = db, new = []\<rparr> of
        Inl e \<Rightarrow> (Inl e, db)
      | Inr (rv, s) \<Rightarrow>
          (case flush s of
             Inl e \<Rightarrow> (Inl e, db)
           | Inr s' \<Rightarrow> (Inr rv, conn s')))"

text \<open>
  Calling a migration's function with the session: it changes the user schema of the
  connection, or raises.
\<close>

definition call_migration :: "('s \<Rightarrow> 'e + 's) \<Rightarrow> 's session \<Rightarrow> 'e py_error + 's session" where
  "call_migration f s =
     (case f (schema (conn s)) of
        Inl e \<Rightarrow> Inl (Raised e)
      | Inr sch \<Rightarrow> Inr (s\<lparr>conn := (conn s)\<lparr>schema := sch\<rparr>\<rparr>))"

definition save_migration_history ::
  "string \<Rightarrow> datetime \<Rightarrow> 's session \<Rightarrow> 'e py_error + 's session" where
  "save_migration_history fname now s =
     Inr (session_add \<lparr>filename = fname, executed_at = now\<rparr> s)"

definition delete_migration_history ::
  "string \<Rightarrow> datetime \<Rightarrow> 's session \<Rightarrow> 'e py_error + 's session" where
  "delete_migration_history fname now s = delete_where_filename fname s"

text \<open>
  \<^verbatim>\<open>Base.metadata.create_all(engine, checkfirst=...)\<close> for the one table of the
  metadata: with \<^verbatim>\<open>checkfirst\<close> an existing table is skipped; without it
  \<^verbatim>\<open>CREATE TABLE\<close> is issued whatever the database holds, and the database refuses
  to create a table that exists.
\<close>

definition create_all :: "bool \<Rightarrow> 's database \<Rightarrow> 'e py_error + 's database" where
  "create_all checkfirst db =
     (case migration_history db of
        None \<Rightarrow> Inr (db\<lparr>migration_history := Some []\<rparr>)
      | Some rows \<Rightarrow> if checkfirst then Inr db else Inl OperationalError)"

definition create_history_table :: "'s database \<Rightarrow> 'e py_error + 's database" where
  "create_history_table engine = create_all False engine"

definition assert_history_table_exists :: "'s database \<Rightarrow> 'e py_error + unit" where
  "assert_history_table_exists engine =
     (if migration_history engine = None then Inl MigrationsToolError else Inr ())"

subsection \<open>The tool\<close>

text \<open>
  The state a \<^verbatim>\<open>MigrationTool\<close> works on: the database of its engine, the contents
  of its migrations directory, and the wall clock. \<open>clock self n\<close> is what
  \<^verbatim>\<open>datetime.now(UTC)\<close> returns during the \<open>n\<close>-th operation; \<open>tick\<close> counts the
  operations so far.
\<close>

record ('s, 'e) MigrationTool =
  engine :: "'s database"
  migrations_dir :: "('s, 'e) dir_entry list"
  clock :: "nat \<Rightarrow> datetime"
  tick :: nat

text \<open>
  \<^verbatim>\<open>MigrationTool.__init__\<close>, on a directory that may not exist (\<open>None\<close>).
\<close>

definition MigrationTool_init ::
  "'s database \<Rightarrow> ('s, 'e) dir_entry list option \<Rightarrow> (nat \<Rightarrow> datetime) \<Rightarrow> bool
     \<Rightarrow> 'e py_error + ('s, 'e) MigrationTool" where
  "MigrationTool_init db dir clk should_create_history_table =
     (case dir of
        None \<Rightarrow> Inl MigrationsToolError
      | Some entries \<Rightarrow>
          (case (if should_create_history_table then create_history_table db else Inr db) of
             Inl e \<Rightarrow> Inl e
           | Inr db' \<Rightarrow>
               (case assert_history_table_exists db' of
                  Inl e \<Rightarrow> Inl e
                | Inr _ \<Rightarrow>
                    Inr \<lparr>engine = db', migrations_dir = entries, clock = clk, tick = 0\<rparr>)))"

text \<open>
  \<^verbatim>\<open>load_migration_module(self.migrations_dir / filename)\<close>: a missing path raises
  \<^verbatim>\<open>FileNotFoundError\<close>, and what is there must be a module matching the protocol.
\<close>

definition load ::
  "('s, 'e) MigrationTool \<Rightarrow> string \<Rightarrow> 'e py_error + ('s, 'e) MigrationModule" where
  "load self fname =
     (case find (\<lambda>f. name f = fname) (migrations_dir self) of
        None \<Rightarrow> Inl FileNotFoundError
      | Some f \<Rightarrow>
          (case artifact f of
             ModuleFile m \<Rightarrow> Inr m
           | _ \<Rightarrow> Inl TypeError))"

definition list_applied_migration_files ::
  "('s, 'e) MigrationTool \<Rightarrow> ('e py_error + string list) \<times> ('s, 'e) MigrationTool" where
  "list_applied_migration_files self =
     (case Session_begin (engine self)
             (\<lambda>session. case select_filenames session of
                           Inl e \<Rightarrow> Inl e
                         | Inr (names, session') \<Rightarrow> Inr (sort names, session')) of
        (rv, db) \<Rightarrow> (rv, self\<lparr>engine := db\<rparr>))"

section \<open>Resolution\<close>

text \<open>\<^verbatim>\<open>xs.index(x)\<close>; \<open>None\<close> is Python's \<^verbatim>\<open>ValueError\<close>.\<close>

fun list_index :: "'a list \<Rightarrow> 'a \<Rightarrow> nat option" where
  "list_index [] x = None"
| "list_index (y # ys) x = (if y = x then Some 0 else map_option Suc (list_index ys x))"

text \<open>
  \<^verbatim>\<open>if target_filename:\<close> is false for \<^verbatim>\<open>None\<close> and for the empty string. In the
  two functions below the branch taken when it is true binds \<open>target\<close> to the string.
\<close>

definition truthy :: "string option \<Rightarrow> bool" where
  "truthy target_filename = (case target_filename of None \<Rightarrow> False | Some t \<Rightarrow> t \<noteq> [])"

text \<open>
  \<^verbatim>\<open>[f for f in migrations if existing_files.index(f) <= target_index]\<close>, where
  \<^verbatim>\<open>index\<close> raises for an \<open>f\<close> that is not in the list.
\<close>

fun upto_target :: "string list \<Rightarrow> nat \<Rightarrow> string list \<Rightarrow> 'e py_error + string list" where
  "upto_target existing_files target_index [] = Inr []"
| "upto_target existing_files target_index (f # migrations) =
     (case list_index existing_files f of
        None \<Rightarrow> Inl (ValueError_index [])
      | Some i \<Rightarrow>
          (case upto_target existing_files target_index migrations of
             Inl e \<Rightarrow> Inl e
           | Inr rest \<Rightarrow> Inr (if i \<le> target_index then f # rest else rest)))"

definition list_migrations_to_upgrade ::
  "('s, 'e) MigrationTool \<Rightarrow> string option
     \<Rightarrow> ('e py_error + string list) \<times> ('s, 'e) MigrationTool" where
  "list_migrations_to_upgrade self target_filename =
     (case list_applied_migration_files self of
        (Inl e, self') \<Rightarrow> (Inl e, self')
      | (Inr applied_files, self') \<Rightarrow>
          (let existing_files = list_existing_migration_files (migrations_dir self');
               migrations = [f \<leftarrow> existing_files. f \<notin> set applied_files]
           in case (if truthy target_filename then target_filename else None) of
                Some target \<Rightarrow>
                  if target \<notin> set existing_files then
                    (Inl (ValueError (''Target migration '' @ target @ '' not found'')), self')
                  else
                    (case list_index existing_files target of
                       None \<Rightarrow>
                         (Inl (ValueError_index
                            (''Target migration '' @ target @ '' not found'')), self')
                     | Some target_index \<Rightarrow>
                         (upto_target existing_files target_index migrations, self'))
              | None \<Rightarrow> (Inr migrations, self')))"

definition list_migrations_to_downgrade ::
  "('s, 'e) MigrationTool \<Rightarrow> string option
     \<Rightarrow> ('e py_error + string list) \<times> ('s, 'e) MigrationTool" where
  "list_migrations_to_downgrade self target_filename =
     (case list_applied_migration_files self of
        (Inl e, self') \<Rightarrow> (Inl e, self')
      | (Inr applied_files, self') \<Rightarrow>
          (let existing_files = list_existing_migration_files (migrations_dir self');
               migrations = rev applied_files
           in case (if truthy target_filename then target_filename else None) of
                Some target \<Rightarrow>
                  if target \<notin> set existing_files then
                    (Inl (ValueError
                       (''Target migration '' @ target @ '' not found in existing_files'')),
                     self')
                  else
                    (case list_index migrations target of
                       None \<Rightarrow>
                         (Inl (ValueError_index
                            (''Target migration '' @ target @ '' not found in applied files'')),
                          self')
                     | Some target_index \<Rightarrow>
                         (Inr (if target \<in> set migrations then take target_index migrations
                               else migrations), self'))
              | None \<Rightarrow> (Inr migrations, self')))"

section \<open>Execution\<close>

text \<open>
  \<^verbatim>\<open>with self.Session.begin() as session:
      function_to_apply(session)
      db_update(filename, session)
  return filename\<close>
  One unit of work holds the migration's change and the change of the history table.
\<close>

definition apply_migration ::
  "string \<Rightarrow> ('s \<Rightarrow> 'e + 's)
     \<Rightarrow> (string \<Rightarrow> datetime \<Rightarrow> 's session \<Rightarrow> 'e py_error + 's session)
     \<Rightarrow> ('s, 'e) MigrationTool \<Rightarrow> ('e py_error + string) \<times> ('s, 'e) MigrationTool" where
  "apply_migration fname function_to_apply db_update self =
     (case Session_begin (engine self)
             (\<lambda>session.
                case call_migration function_to_apply session of
                  Inl e \<Rightarrow> Inl e
                | Inr session1 \<Rightarrow>
                    (case db_update fname (clock self (tick self)) session1 of
                       Inl e \<Rightarrow> Inl e
                     | Inr session2 \<Rightarrow> Inr ((), session2))) of
        (Inl e, db) \<Rightarrow> (Inl e, self\<lparr>engine := db, tick := Suc (tick self)\<rparr>)
      | (Inr _, db) \<Rightarrow> (Inr fname, self\<lparr>engine := db, tick := Suc (tick self)\<rparr>))"

text \<open>
  The generator \<^verbatim>\<open>lazy_execute(files, upgrade)\<close>, consumed to its end: the file names
  it yields, the exception that ended it (if any), and the state it leaves. The flag
  \<^verbatim>\<open>upgrade\<close> is \<open>upgrading\<close> here.
\<close>

fun lazy_execute ::
  "string list \<Rightarrow> bool \<Rightarrow> ('s, 'e) MigrationTool
     \<Rightarrow> string list \<times> 'e py_error option \<times> ('s, 'e) MigrationTool" where
  "lazy_execute [] upgrading self = ([], None, self)"
| "lazy_execute (file # files) upgrading self =
     (case load self file of
        Inl e \<Rightarrow> ([], Some e, self)
      | Inr module \<Rightarrow>
          (case apply_migration file
                  (if upgrading then MigrationModule.upgrade module
                   else MigrationModule.downgrade module)
                  (if upgrading then save_migration_history else delete_migration_history)
                  self of
             (Inl e, self') \<Rightarrow> ([], Some e, self')
           | (Inr yielded, self') \<Rightarrow>
               (case lazy_execute files upgrading self' of
                  (ys, raised, self'') \<Rightarrow> (yielded # ys, raised, self''))))"

section \<open>Generation and status\<close>

text \<open>
  The template \<^verbatim>\<open>generate_migration\<close> writes: both functions execute the empty
  statement, which changes nothing.
\<close>

definition template :: "('s, 'e) MigrationModule" where
  "template = \<lparr>upgrade = Inr, downgrade = Inr\<rparr>"

text \<open>
  \<^verbatim>\<open>filepath.write_text(...)\<close> creates the file or replaces the file of that name.
\<close>

definition generate_migration ::
  "('s, 'e) MigrationTool \<Rightarrow> string \<Rightarrow> string \<times> ('s, 'e) MigrationTool" where
  "generate_migration self description =
     (let timestamp = clock self (tick self);
          fname = migration_filename timestamp description
      in (fname,
          self\<lparr>migrations_dir :=
                  \<lparr>name = fname, artifact = ModuleFile template\<rparr>
                  # filter (\<lambda>f. name f \<noteq> fname) (migrations_dir self),
               tick := Suc (tick self)\<rparr>))"

datatype MigrationInfo =
  MigrationInfo (info_filename: string) (created_at: datetime)
    (info_executed_at: "datetime option")

text \<open>\<^verbatim>\<open>filename.split(".", maxsplit=1)[0]\<close>\<close>

definition before_dot :: "string \<Rightarrow> string" where
  "before_dot s = takeWhile (\<lambda>c. c \<noteq> CHR ''.'') s"

text \<open>
  \<^verbatim>\<open>s.split("__", maxsplit=1)\<close> when it has two parts; \<open>None\<close> when the separator
  does not occur.
\<close>

fun split_sep :: "string \<Rightarrow> (string \<times> string) option" where
  "split_sep [] = None"
| "split_sep [c] = None"
| "split_sep (c # d # s) =
     (if c = CHR ''_'' \<and> d = CHR ''_'' then Some ([], s)
      else map_option (\<lambda>(a, b). (c # a, b)) (split_sep (d # s)))"

text \<open>
  \<^verbatim>\<open>parse_filename\<close>. \<^verbatim>\<open>datetime.strptime\<close> is the library's; it is a parameter
  here, given the string and the format.
\<close>

definition parse_filename ::
  "(string \<Rightarrow> string \<Rightarrow> 'e py_error + datetime) \<Rightarrow> string
     \<Rightarrow> 'e py_error + datetime \<times> string" where
  "parse_filename strptime fname =
     (case split_sep (before_dot fname) of
        None \<Rightarrow> Inl (ValueError ''not enough values to unpack (expected 2, got 1)'')
      | Some (datetime_str, description) \<Rightarrow>
          (case strptime datetime_str DATETIME_FMT of
             Inl e \<Rightarrow> Inl e
           | Inr created \<Rightarrow> Inr (created, description)))"

fun applied_infos ::
  "(string \<Rightarrow> string \<Rightarrow> 'e py_error + datetime) \<Rightarrow> history_row list
     \<Rightarrow> 'e py_error + MigrationInfo list" where
  "applied_infos strptime [] = Inr []"
| "applied_infos strptime (row # rows) =
     (case parse_filename strptime (filename row) of
        Inl e \<Rightarrow> Inl e
      | Inr (created, _) \<Rightarrow>
          (case applied_infos strptime rows of
             Inl e \<Rightarrow> Inl e
           | Inr rest \<Rightarrow>
               Inr (MigrationInfo (filename row) created (Some (executed_at row)) # rest)))"

fun pending_infos ::
  "(string \<Rightarrow> string \<Rightarrow> 'e py_error + datetime) \<Rightarrow> string list
     \<Rightarrow> 'e py_error + MigrationInfo list" where
  "pending_infos strptime [] = Inr []"
| "pending_infos strptime (file # files) =
     (case parse_filename strptime file of
        Inl e \<Rightarrow> Inl e
      | Inr (created, _) \<Rightarrow>
          (case pending_infos strptime files of
             Inl e \<Rightarrow> Inl e
           | Inr rest \<Rightarrow> Inr (MigrationInfo file created None # rest)))"

text \<open>
  The two queries of \<^verbatim>\<open>list_all_migrations\<close>. With a limit: the rows joined with the
  \<open>n\<close> last ones by file name, in ascending order. Without: all rows in ascending
  order. \<^verbatim>\<open>ORDER BY\<close> compares file names as Python does.
\<close>

definition select_last :: "nat \<Rightarrow> history_row list \<Rightarrow> history_row list" where
  "select_last n rows =
     (let subq = take n (rev (sort_key filename rows))
      in sort_key filename [r \<leftarrow> rows. filename r \<in> set (map filename subq)])"

definition select_all :: "history_row list \<Rightarrow> history_row list" where
  "select_all rows = sort_key filename rows"

text \<open>
  \<^verbatim>\<open>if history_limit:\<close> is false for \<^verbatim>\<open>None\<close> and for 0. The limit is a natural
  number here: what a negative \<^verbatim>\<open>LIMIT\<close> does depends on the database.
\<close>

definition list_all_migrations ::
  "(string \<Rightarrow> string \<Rightarrow> 'e py_error + datetime) \<Rightarrow> ('s, 'e) MigrationTool \<Rightarrow> nat option
     \<Rightarrow> ('e py_error + MigrationInfo list) \<times> ('s, 'e) MigrationTool" where
  "list_all_migrations strptime self history_limit =
     (case Session_begin (engine self)
             (\<lambda>session.
                case select_rows session of
                  Inl e \<Rightarrow> Inl e
                | Inr (table, session') \<Rightarrow>
                    Inr (case (if history_limit = Some 0 then None else history_limit) of
                           Some n \<Rightarrow> select_last n table
                         | None \<Rightarrow> select_all table,
                         session')) of
        (Inl e, db) \<Rightarrow> (Inl e, self\<lparr>engine := db\<rparr>)
      | (Inr rows, db) \<Rightarrow>
          (let self1 = self\<lparr>engine := db\<rparr> in
           case applied_infos strptime rows of
             Inl e \<Rightarrow> (Inl e, self1)
           | Inr rv \<Rightarrow>
               (case list_migrations_to_upgrade self1 None of
                  (Inl e, self2) \<Rightarrow> (Inl e, self2)
                | (Inr files, self2) \<Rightarrow>
                    (case pending_infos strptime files of
                       Inl e \<Rightarrow> (Inl e, self2)
                     | Inr pending \<Rightarrow> (Inr (rv @ pending), self2)))))"

section \<open>What the history records, and which changes are in effect\<close>

text \<open>The file names the history table holds.\<close>

definition recorded :: "'s database \<Rightarrow> string set" where
  "recorded db = (case migration_history db of None \<Rightarrow> {} | Some rows \<Rightarrow> set (map filename rows))"

text \<open>
  To say which forward changes are committed and not reverted, the user schema is
  paired with the set of units in effect. A tracked module changes the schema as the
  module does and, when it succeeds, notes the unit as in effect (upgrade) or no longer
  in effect (downgrade). The note is part of the schema, so it is committed and rolled
  back with the schema change it describes. Nothing else is changed: the tracked tool
  is the tool with every module of its directory tracked.
\<close>

definition tracked :: "string \<Rightarrow> ('s, 'e) MigrationModule \<Rightarrow> ('s \<times> string set, 'e) MigrationModule" where
  "tracked fname m =
     \<lparr>upgrade = (\<lambda>(sch, eff). case upgrade m sch of
                                  Inl e \<Rightarrow> Inl e
                                | Inr sch' \<Rightarrow> Inr (sch', insert fname eff)),
      downgrade = (\<lambda>(sch, eff). case downgrade m sch of
                                    Inl e \<Rightarrow> Inl e
                                  | Inr sch' \<Rightarrow> Inr (sch', eff - {fname}))\<rparr>"

definition tracked_entry :: "('s, 'e) dir_entry \<Rightarrow> ('s \<times> string set, 'e) dir_entry" where
  "tracked_entry f =
     \<lparr>name = name f,
      artifact = (case artifact f of
                    Directory \<Rightarrow> Directory
                  | ModuleFile m \<Rightarrow> ModuleFile (tracked (name f) m)
                  | OtherFile \<Rightarrow> OtherFile)\<rparr>"

definition tracked_tool ::
  "('s, 'e) MigrationTool \<Rightarrow> string set \<Rightarrow> ('s \<times> string set, 'e) MigrationTool" where
  "tracked_tool self eff =
     \<lparr>engine = \<lparr>schema = (schema (engine self), eff),
                migration_history = migration_history (engine self)\<rparr>,
      migrations_dir = map tracked_entry (migrations_dir self),
      clock = clock self,
      tick = tick self\<rparr>"

definition in_effect :: "('s \<times> string set) database \<Rightarrow> string set" where
  "in_effect db = snd (schema db)"

section \<open>A small installation\<close>

text \<open>
  The installation of the spec's examples: four units, named as \<^verbatim>\<open>parse_filename\<close> expects
  (a prefix, \<^verbatim>\<open>__\<close>, a description), next to a \<^verbatim>\<open>.gitkeep\<close> and a \<^verbatim>\<open>__pycache__\<close> directory. The user schema is
  a counter; the first creates it and cannot do so twice, the third adds to it, the
  second and the fourth fail to upgrade with the same
  exception. \<open>example_tool applied\<close> is the tool with the units \<open>applied\<close> in its history;
  its clock advances by an hour with each reading.
\<close>

abbreviation m1 :: string where "m1 \<equiv> ''20240115_1000_00000000__m1.py''"
abbreviation m2 :: string where "m2 \<equiv> ''20240115_1100_00000000__m2.py''"
abbreviation m3 :: string where "m3 \<equiv> ''20240115_1200_00000000__m3.py''"
abbreviation m4 :: string where "m4 \<equiv> ''20240115_1300_00000000__m4.py''"

definition example_time :: datetime where
  "example_time =
     \<lparr>year = 2024, month = 1, day = 15, hour = 10, minute = 30, second = 0, microsecond = 0\<rparr>"

definition example_clock :: "nat \<Rightarrow> datetime" where
  "example_clock n = example_time\<lparr>hour := 10 + n\<rparr>"

definition creating :: "(nat, string) MigrationModule" where
  "creating =
     \<lparr>upgrade = (\<lambda>n. if n = 0 then Inr 1 else Inl ''table already exists''),
      downgrade = (\<lambda>n. Inr 0)\<rparr>"

definition adding :: "(nat, string) MigrationModule" where
  "adding = \<lparr>upgrade = (\<lambda>n. Inr (Suc n)), downgrade = (\<lambda>n. Inr (n - 1))\<rparr>"

definition failing :: "(nat, string) MigrationModule" where
  "failing = \<lparr>upgrade = (\<lambda>n. Inl ''syntax error''), downgrade = Inr\<rparr>"

definition example_dir :: "(nat, string) dir_entry list" where
  "example_dir =
     [\<lparr>name = m3, artifact = ModuleFile adding\<rparr>,
      \<lparr>name = ''.gitkeep'', artifact = OtherFile\<rparr>,
      \<lparr>name = m1, artifact = ModuleFile creating\<rparr>,
      \<lparr>name = ''__pycache__'', artifact = Directory\<rparr>,
      \<lparr>name = m4, artifact = ModuleFile failing\<rparr>,
      \<lparr>name = m2, artifact = ModuleFile failing\<rparr>]"

definition example_rows :: "string list \<Rightarrow> history_row list" where
  "example_rows applied = map (\<lambda>f. \<lparr>filename = f, executed_at = example_time\<rparr>) applied"

definition example_tool :: "string list \<Rightarrow> (nat, string) MigrationTool" where
  "example_tool applied =
     \<lparr>engine = \<lparr>schema = length applied, migration_history = Some (example_rows applied)\<rparr>,
      migrations_dir = example_dir,
      clock = example_clock,
      tick = 0\<rparr>"

text \<open>
  A stand-in for \<^verbatim>\<open>datetime.strptime\<close> in the examples: it accepts the strings that
  have the width of a rendered timestamp.
\<close>

definition example_strptime :: "string \<Rightarrow> string \<Rightarrow> string py_error + datetime" where
  "example_strptime s fmt =
     (if length s = 22 then Inr example_time
      else Inl (ValueError ''time data does not match format''))"

section \<open>Discovery: what the listing holds\<close>

text \<open>
  C8, as the code has it. The listing is sorted ascending and holds exactly the names
  of the entries that are files, do not start with \<^verbatim>\<open>__\<close> and are not named
  \<^verbatim>\<open>.gitkeep\<close>, one per such entry. Nothing else is excluded.
\<close>

theorem list_existing_migration_files_spec:
  "sorted (list_existing_migration_files d)
   \<and> set (list_existing_migration_files d)
       = {name f |f. f \<in> set d \<and> is_file f \<and> \<not> startswith (name f) ''__''
                     \<and> name f \<noteq> ''.gitkeep''}
   \<and> length (list_existing_migration_files d)
       = length (filter (\<lambda>f. is_file f \<and> \<not> startswith (name f) ''__''
                               \<and> name f \<noteq> ''.gitkeep'') d)"
proof -
  have eq: "is_listed = (\<lambda>f::('a, 'b) dir_entry.
          is_file f \<and> \<not> startswith (name f) ''__'' \<and> name f \<noteq> ''.gitkeep'')"
    by (simp add: fun_eq_iff is_listed_def)
  show ?thesis
    unfolding list_existing_migration_files_def eq by auto
qed

text \<open>
  C8 as stated fails: a hidden file other than \<^verbatim>\<open>.gitkeep\<close> is listed as a unit,
  and so is any file that is no migration at all.
\<close>

theorem hidden_file_listed_counterexample:
  "list_existing_migration_files
     [\<lparr>name = ''.DS_Store'', artifact = OtherFile\<rparr>,
      \<lparr>name = ''20240115_1030_00000000__a.py'', artifact = OtherFile\<rparr>]
   = [''.DS_Store'', ''20240115_1030_00000000__a.py'']"
  by (simp add: list_existing_migration_files_def is_listed_def startswith_def is_file_def)

section \<open>Resolution: what the two plans hold\<close>

subsection \<open>Reading the history, and \<open>index\<close>\<close>

lemma flush_nothing: "flush \<lparr>conn = db, new = []\<rparr> = Inr \<lparr>conn = db, new = []\<rparr>"
  by (simp add: flush_def)

lemma list_applied_migration_files_unchanged:
  "snd (list_applied_migration_files self) = self"
  by (simp add: list_applied_migration_files_def Session_begin_def select_filenames_def
      flush_nothing split: option.splits sum.splits prod.splits)

lemma list_applied_migration_files_table:
  "migration_history (engine self) = Some rows \<Longrightarrow>
   list_applied_migration_files self = (Inr (sort (map filename rows)), self)"
  by (simp add: list_applied_migration_files_def Session_begin_def select_filenames_def
      flush_nothing)

lemma list_applied_migration_files_no_table:
  "migration_history (engine self) = None \<Longrightarrow>
   list_applied_migration_files self = (Inl OperationalError, self)"
  by (simp add: list_applied_migration_files_def Session_begin_def select_filenames_def
      flush_nothing)

lemma list_index_None: "list_index xs x = None \<longleftrightarrow> x \<notin> set xs"
  by (induction xs) auto

lemma list_index_Some:
  "list_index xs x = Some i \<Longrightarrow> i < length xs \<and> xs ! i = x \<and> x \<notin> set (take i xs)"
proof (induction xs arbitrary: i)
  case Nil then show ?case by simp
next
  case (Cons y ys)
  show ?case
  proof (cases "y = x")
    case True with Cons.prems show ?thesis by simp
  next
    case False
    with Cons.prems obtain j where j: "list_index ys x = Some j" "i = Suc j" by auto
    from Cons.IH[OF j(1)] False j(2) show ?thesis by simp
  qed
qed

lemma list_index_take: "list_index xs x = Some i \<Longrightarrow> take i xs = takeWhile (\<lambda>y. y \<noteq> x) xs"
proof (induction xs arbitrary: i)
  case Nil then show ?case by simp
next
  case (Cons y ys)
  then show ?case by (cases "y = x") auto
qed

lemma list_index_sorted_le:
  assumes "sorted xs" "list_index xs f = Some j" "list_index xs t = Some i"
  shows "j \<le> i \<longleftrightarrow> f \<le> t"
proof -
  from list_index_Some[OF assms(2)]
  have j: "j < length xs" "xs ! j = f" "f \<notin> set (take j xs)" by auto
  from list_index_Some[OF assms(3)]
  have i: "i < length xs" "xs ! i = t" by auto
  show ?thesis
  proof
    assume "j \<le> i"
    with assms(1) i(1) have "xs ! j \<le> xs ! i" by (rule_tac sorted_nth_mono)
    with i j show "f \<le> t" by simp
  next
    assume le: "f \<le> t"
    show "j \<le> i"
    proof (rule ccontr)
      assume "\<not> j \<le> i"
      then have ij: "i < j" by simp
      with assms(1) j(1) have "xs ! i \<le> xs ! j" by (simp add: sorted_nth_mono)
      with le i j(2) have "f = t" by simp
      with i have fi: "xs ! i = f" by simp
      from ij j(1) have "take j xs ! i = xs ! i" "i < length (take j xs)" by simp_all
      then have "xs ! i \<in> set (take j xs)" by (metis nth_mem)
      with fi j(3) show False by simp
    qed
  qed
qed

lemma upto_target_members:
  "set ms \<subseteq> set ex \<Longrightarrow>
   upto_target ex t ms = Inr [f \<leftarrow> ms. \<exists>j\<le>t. list_index ex f = Some j]"
proof (induction ms)
  case Nil then show ?case by simp
next
  case (Cons m ms)
  then have "m \<in> set ex" by simp
  then obtain j where j: "list_index ex m = Some j"
    using list_index_None[of ex m] by (cases "list_index ex m") auto
  with Cons show ?case by simp
qed

lemma sorted_filter_le_takeWhile:
  "sorted xs \<Longrightarrow> [f \<leftarrow> xs. f \<le> (t::'a::linorder)] = takeWhile (\<lambda>f. f \<le> t) xs"
proof (induction xs)
  case Nil then show ?case by simp
next
  case (Cons x xs)
  show ?case
  proof (cases "x \<le> t")
    case True with Cons show ?thesis by simp
  next
    case False
    with Cons.prems have "\<forall>y\<in>set xs. \<not> y \<le> t" by auto
    with False show ?thesis by (simp add: filter_empty_conv)
  qed
qed

lemma sorted_list_existing: "sorted (list_existing_migration_files d)"
  by (simp add: list_existing_migration_files_def)

lemma truthy_simps:
  "truthy None = False" "truthy (Some []) = False" "t \<noteq> [] \<Longrightarrow> truthy (Some t) = True"
  by (simp_all add: truthy_def)

lemma example_discovered:
  "list_existing_migration_files (migrations_dir (example_tool applied))
     = [m1, m2, m3, m4]"
  by (simp add: example_tool_def example_dir_def list_existing_migration_files_def
      is_listed_def is_file_def startswith_def)

lemma example_table:
  "migration_history (engine (example_tool applied)) = Some (example_rows applied)"
  by (simp add: example_tool_def)

section \<open>Creating the history table\<close>

text \<open>
  C5, as the code has it. \<^verbatim>\<open>create_history_table\<close> passes \<^verbatim>\<open>checkfirst=False\<close>, so it
  creates the table only where there is none: on a database without the table it
  succeeds, leaves the user schema alone, and a second call on the result fails with the
  database's error. On a database that has the table it fails, and so does constructing
  the tool with \<^verbatim>\<open>should_create_history_table=True\<close>; constructing it without that
  flag succeeds there and leaves the database as it is.
\<close>

theorem create_history_table_once:
  fixes db :: "'s database"
  shows "(migration_history db = None \<longrightarrow>
            (\<exists>db'. create_history_table db = (Inr db' :: 'e py_error + 's database)
                \<and> migration_history db' = Some [] \<and> schema db' = schema db
                \<and> create_history_table db' = (Inl OperationalError :: 'e py_error + 's database)))
       \<and> (migration_history db \<noteq> None \<longrightarrow>
            create_history_table db = (Inl OperationalError :: 'e py_error + 's database)
          \<and> MigrationTool_init db (Some dir) clk True
              = (Inl OperationalError :: 'e py_error + ('s, 'e) MigrationTool)
          \<and> (\<exists>tool. MigrationTool_init db (Some dir) clk False
                       = (Inr tool :: 'e py_error + ('s, 'e) MigrationTool)
                   \<and> engine tool = db))"
  by (auto simp add: create_history_table_def create_all_def MigrationTool_init_def
      assert_history_table_exists_def)

theorem create_history_table_once_witness:
  "migration_history \<lparr>schema = 0::nat, migration_history = None\<rparr> = None
   \<and> create_history_table \<lparr>schema = 0::nat, migration_history = None\<rparr>
       = (Inr \<lparr>schema = 0, migration_history = Some []\<rparr> :: string py_error + nat database)
   \<and> migration_history (engine (example_tool [m1])) \<noteq> None
   \<and> create_history_table (engine (example_tool [m1]))
       = (Inl OperationalError :: string py_error + nat database)"
  using create_history_table_once[of "\<lparr>schema = 0::nat, migration_history = None\<rparr>",
          where 'e = string]
    create_history_table_once[of "engine (example_tool [m1])", where 'e = string]
  by (auto simp add: example_table)

text \<open>
  C5 as stated fails: the second creation against the same database does not succeed.
\<close>

theorem create_history_table_twice_counterexample:
  "create_history_table \<lparr>schema = 0::nat, migration_history = None\<rparr>
     = (Inr \<lparr>schema = 0, migration_history = Some []\<rparr> :: string py_error + nat database)
   \<and> create_history_table \<lparr>schema = 0::nat, migration_history = Some []\<rparr>
     = (Inl OperationalError :: string py_error + nat database)"
  by (simp add: create_history_table_def create_all_def)

subsection \<open>Upgrade\<close>

text \<open>
  C1. With the history table in place, \<open>discovered\<close> the sorted listing of the
  directory and \<open>applied\<close> the sorted file names of the history:
  \<^item> without a target, \<^verbatim>\<open>list_migrations_to_upgrade\<close> returns the discovered names that
    are not applied, in the order of \<open>discovered\<close>; the plan is ascending and disjoint
    from \<open>applied\<close>;
  \<^item> with a target that is in \<open>discovered\<close> (a file name, so not the empty string), it
    returns the pending names whose index in \<open>discovered\<close> is at most the target's; that
    list is a prefix of the pending list, and holds the pending names up to the target.
  Neither call changes the state.
\<close>

theorem list_migrations_to_upgrade_spec:
  fixes self :: "('s, 'e) MigrationTool"
  defines "discovered \<equiv> list_existing_migration_files (migrations_dir self)"
  assumes table: "migration_history (engine self) = Some rows"
  defines "applied \<equiv> sort (map filename rows)"
  defines "pending \<equiv> [f \<leftarrow> discovered. f \<notin> set applied]"
  shows "list_migrations_to_upgrade self None = (Inr pending, self)
       \<and> sorted pending \<and> set pending = set discovered - set applied
       \<and> set pending \<inter> set applied = {}
       \<and> (target \<in> set discovered \<and> target \<noteq> [] \<longrightarrow>
            (\<exists>i. list_index discovered target = Some i
               \<and> list_migrations_to_upgrade self (Some target)
                   = (Inr [f \<leftarrow> pending. \<exists>j\<le>i. list_index discovered f = Some j], self)
               \<and> prefix [f \<leftarrow> pending. \<exists>j\<le>i. list_index discovered f = Some j] pending
               \<and> [f \<leftarrow> pending. \<exists>j\<le>i. list_index discovered f = Some j]
                   = [f \<leftarrow> pending. f \<le> target]))"
proof -
  have sd: "sorted discovered"
    by (simp add: discovered_def sorted_list_existing)
  have sp: "sorted pending"
    using sd by (simp add: pending_def sorted_wrt_filter)
  have none: "list_migrations_to_upgrade self None = (Inr pending, self)"
    by (simp add: list_migrations_to_upgrade_def list_applied_migration_files_table[OF table]
        truthy_simps Let_def pending_def applied_def discovered_def)
  have sets: "set pending = set discovered - set applied"
    by (auto simp: pending_def)
  have tgt: "\<exists>i. list_index discovered target = Some i
               \<and> list_migrations_to_upgrade self (Some target)
                   = (Inr [f \<leftarrow> pending. \<exists>j\<le>i. list_index discovered f = Some j], self)
               \<and> prefix [f \<leftarrow> pending. \<exists>j\<le>i. list_index discovered f = Some j] pending
               \<and> [f \<leftarrow> pending. \<exists>j\<le>i. list_index discovered f = Some j]
                   = [f \<leftarrow> pending. f \<le> target]"
    if mem: "target \<in> set discovered" and ne: "target \<noteq> []"
  proof -
    from mem obtain i where i: "list_index discovered target = Some i"
      using list_index_None[of discovered target] by (cases "list_index discovered target") auto
    have sub: "set pending \<subseteq> set discovered" by (auto simp: pending_def)
    have run: "list_migrations_to_upgrade self (Some target)
                = (upto_target discovered i pending, self)"
      using mem i
      by (simp add: list_migrations_to_upgrade_def list_applied_migration_files_table[OF table]
          truthy_simps(3)[OF ne] Let_def pending_def applied_def discovered_def)
    have eq: "[f \<leftarrow> pending. \<exists>j\<le>i. list_index discovered f = Some j]
                = [f \<leftarrow> pending. f \<le> target]"
    proof (rule filter_cong[OF refl])
      fix f assume "f \<in> set pending"
      with sub have "f \<in> set discovered" by auto
      then obtain j where j: "list_index discovered f = Some j"
        using list_index_None[of discovered f] by (cases "list_index discovered f") auto
      from list_index_sorted_le[OF sd j i] j
      show "(\<exists>j\<le>i. list_index discovered f = Some j) = (f \<le> target)" by auto
    qed
    have "prefix [f \<leftarrow> pending. f \<le> target] pending"
      by (simp add: sorted_filter_le_takeWhile[OF sp] takeWhile_is_prefix)
    with i run eq upto_target_members[OF sub, of i] show ?thesis by simp
  qed
  from none sp sets tgt show ?thesis by auto
qed

theorem list_migrations_to_upgrade_witness:
  "migration_history (engine (example_tool [m1])) = Some (example_rows [m1])
   \<and> m3 \<in> set (list_existing_migration_files (migrations_dir (example_tool [m1])))
   \<and> list_migrations_to_upgrade (example_tool [m1]) None
       = (Inr [m2, m3, m4], example_tool [m1])
   \<and> list_migrations_to_upgrade (example_tool [m1]) (Some m3)
       = (Inr [m2, m3], example_tool [m1])
   \<and> prefix [m2, m3] [m2, m3, m4]"
  using list_migrations_to_upgrade_spec[OF example_table, of "[m1]" "m3"]
  by (simp add: example_discovered example_rows_def example_table)

subsection \<open>Downgrade\<close>

text \<open>
  C2. Without a target, \<^verbatim>\<open>list_migrations_to_downgrade\<close> returns the applied names
  reversed, all of them. With a target that is discovered and applied, it returns the
  part of the reversed list strictly before the target: the target is not in the plan,
  and the plan is empty when the target is the last applied name.
\<close>

theorem list_migrations_to_downgrade_spec:
  fixes self :: "('s, 'e) MigrationTool"
  defines "discovered \<equiv> list_existing_migration_files (migrations_dir self)"
  assumes table: "migration_history (engine self) = Some rows"
  defines "applied \<equiv> sort (map filename rows)"
  shows "list_migrations_to_downgrade self None = (Inr (rev applied), self)
       \<and> (target \<in> set discovered \<and> target \<in> set applied \<and> target \<noteq> [] \<longrightarrow>
            (\<exists>before after.
                rev applied = before @ target # after
              \<and> target \<notin> set before
              \<and> list_migrations_to_downgrade self (Some target) = (Inr before, self)
              \<and> (last applied = target \<longrightarrow> before = [])))"
proof -
  have none: "list_migrations_to_downgrade self None = (Inr (rev applied), self)"
    by (simp add: list_migrations_to_downgrade_def list_applied_migration_files_table[OF table]
        truthy_simps Let_def applied_def)
  have tgt: "\<exists>before after.
                rev applied = before @ target # after
              \<and> target \<notin> set before
              \<and> list_migrations_to_downgrade self (Some target) = (Inr before, self)
              \<and> (last applied = target \<longrightarrow> before = [])"
    if mem: "target \<in> set discovered" and app: "target \<in> set applied" and ne: "target \<noteq> []"
  proof -
    from app have app': "target \<in> set (rev applied)" by simp
    then obtain i where i: "list_index (rev applied) target = Some i"
      using list_index_None[of "rev applied" target]
      by (cases "list_index (rev applied) target") auto
    from list_index_Some[OF i]
    have il: "i < length (rev applied)" and it: "rev applied ! i = target"
      and nb: "target \<notin> set (take i (rev applied))" by auto
    have run: "list_migrations_to_downgrade self (Some target)
                = (Inr (take i (rev applied)), self)"
      using mem i app
      by (simp add: list_migrations_to_downgrade_def
          list_applied_migration_files_table[OF table]
          truthy_simps(3)[OF ne] Let_def applied_def discovered_def)
    have split: "rev applied = take i (rev applied) @ target # drop (Suc i) (rev applied)"
      using il it by (metis id_take_nth_drop)
    have "take i (rev applied) = []" if "last applied = target"
    proof -
      from app have "applied \<noteq> []" by auto
      with that have "hd (rev applied) = target" by (simp add: hd_rev)
      with app' have "list_index (rev applied) target = Some 0"
        by (cases "rev applied") auto
      with i show ?thesis by simp
    qed
    with run split nb show ?thesis by blast
  qed
  from none tgt show ?thesis by blast
qed

theorem list_migrations_to_downgrade_witness:
  "migration_history (engine (example_tool [m1, m2, m3]))
     = Some (example_rows [m1, m2, m3])
   \<and> m1 \<in> set (list_existing_migration_files
                    (migrations_dir (example_tool [m1, m2, m3])))
   \<and> list_migrations_to_downgrade (example_tool [m1, m2, m3]) None
       = (Inr [m3, m2, m1], example_tool [m1, m2, m3])
   \<and> list_migrations_to_downgrade (example_tool [m1, m2, m3]) (Some m1)
       = (Inr [m3, m2], example_tool [m1, m2, m3])
   \<and> last (sort (map filename (example_rows [m1, m2, m3]))) = m3
   \<and> list_migrations_to_downgrade (example_tool [m1, m2, m3]) (Some m3)
       = (Inr [], example_tool [m1, m2, m3])"
  using list_migrations_to_downgrade_spec[OF example_table, of "[m1, m2, m3]" "m1"]
    list_migrations_to_downgrade_spec[OF example_table, of "[m1, m2, m3]" "m3"]
  by (auto simp add: example_discovered example_rows_def example_table
      Cons_eq_append_conv append_eq_Cons_conv)

subsection \<open>Targets that are refused\<close>

text \<open>
  C6. A non-empty target that is not discovered makes both functions raise the
  \<^verbatim>\<open>ValueError\<close> "not found"; a discovered target that is not applied makes the
  downgrade raise the \<^verbatim>\<open>ValueError\<close> of \<^verbatim>\<open>index\<close>, noted "not found in applied
  files". Whatever the target, the state after the call is the state before it: the
  history is only read and no unit runs.
\<close>

theorem target_validation_spec:
  fixes self :: "('s, 'e) MigrationTool"
  defines "discovered \<equiv> list_existing_migration_files (migrations_dir self)"
  assumes table: "migration_history (engine self) = Some rows"
  defines "applied \<equiv> sort (map filename rows)"
  shows "(target \<noteq> [] \<and> target \<notin> set discovered \<longrightarrow>
            list_migrations_to_upgrade self (Some target)
              = (Inl (ValueError (''Target migration '' @ target @ '' not found'')), self)
          \<and> list_migrations_to_downgrade self (Some target)
              = (Inl (ValueError
                   (''Target migration '' @ target @ '' not found in existing_files'')), self))
       \<and> (target \<noteq> [] \<and> target \<in> set discovered \<and> target \<notin> set applied \<longrightarrow>
            list_migrations_to_downgrade self (Some target)
              = (Inl (ValueError_index
                   (''Target migration '' @ target @ '' not found in applied files'')), self))
       \<and> snd (list_migrations_to_upgrade self (Some target)) = self
       \<and> snd (list_migrations_to_downgrade self (Some target)) = self"
proof -
  have a: "list_migrations_to_upgrade self (Some target)
              = (Inl (ValueError (''Target migration '' @ target @ '' not found'')), self)"
    if "target \<noteq> []" "target \<notin> set discovered"
    using that
    by (simp add: list_migrations_to_upgrade_def list_applied_migration_files_table[OF table]
        truthy_simps(3) Let_def discovered_def)
  have b: "list_migrations_to_downgrade self (Some target)
              = (Inl (ValueError
                   (''Target migration '' @ target @ '' not found in existing_files'')), self)"
    if "target \<noteq> []" "target \<notin> set discovered"
    using that
    by (simp add: list_migrations_to_downgrade_def list_applied_migration_files_table[OF table]
        truthy_simps(3) Let_def discovered_def)
  have c: "list_migrations_to_downgrade self (Some target)
              = (Inl (ValueError_index
                   (''Target migration '' @ target @ '' not found in applied files'')), self)"
    if ne: "target \<noteq> []" and mem: "target \<in> set discovered" and na: "target \<notin> set applied"
  proof -
    from na have "list_index (rev applied) target = None"
      by (simp add: list_index_None)
    with mem show ?thesis
      by (simp add: list_migrations_to_downgrade_def
          list_applied_migration_files_table[OF table]
          truthy_simps(3)[OF ne] Let_def discovered_def applied_def)
  qed
  have d: "snd (list_migrations_to_upgrade self (Some target)) = self"
    by (simp add: list_migrations_to_upgrade_def list_applied_migration_files_table[OF table]
        Let_def split: option.splits)
  have e: "snd (list_migrations_to_downgrade self (Some target)) = self"
    by (simp add: list_migrations_to_downgrade_def list_applied_migration_files_table[OF table]
        Let_def split: option.splits)
  from a b c d e show ?thesis by blast
qed

theorem target_validation_witness:
  "migration_history (engine (example_tool [m1])) = Some (example_rows [m1])
   \<and> ''nonexistent'' \<notin> set (list_existing_migration_files
                              (migrations_dir (example_tool [m1])))
   \<and> list_migrations_to_upgrade (example_tool [m1]) (Some ''nonexistent'')
       = (Inl (ValueError ''Target migration nonexistent not found''), example_tool [m1])
   \<and> list_migrations_to_downgrade (example_tool [m1]) (Some ''nonexistent'')
       = (Inl (ValueError ''Target migration nonexistent not found in existing_files''),
          example_tool [m1])
   \<and> m2 \<in> set (list_existing_migration_files (migrations_dir (example_tool [m1])))
   \<and> m2 \<notin> set (sort (map filename (example_rows [m1])))
   \<and> list_migrations_to_downgrade (example_tool [m1]) (Some m2)
       = (Inl (ValueError_index (''Target migration '' @ m2 @ '' not found in applied files'')),
          example_tool [m1])"
  using target_validation_spec[OF example_table, of "''nonexistent''" "[m1]"]
    target_validation_spec[OF example_table, of "m2" "[m1]"]
  by (simp add: example_discovered example_rows_def example_table)

subsection \<open>The empty target\<close>

text \<open>
  C9. The empty string as target is no target: the upgrade plan is the whole pending
  list, the downgrade plan is every applied name reversed, and nothing is raised.
\<close>

theorem empty_target_is_no_target:
  fixes self :: "('s, 'e) MigrationTool"
  defines "discovered \<equiv> list_existing_migration_files (migrations_dir self)"
  assumes table: "migration_history (engine self) = Some rows"
  defines "applied \<equiv> sort (map filename rows)"
  shows "list_migrations_to_upgrade self (Some '''')
           = (Inr [f \<leftarrow> discovered. f \<notin> set applied], self)
       \<and> list_migrations_to_downgrade self (Some '''') = (Inr (rev applied), self)
       \<and> list_migrations_to_upgrade self (Some '''') = list_migrations_to_upgrade self None
       \<and> list_migrations_to_downgrade self (Some '''') = list_migrations_to_downgrade self None"
  by (simp add: list_migrations_to_upgrade_def list_migrations_to_downgrade_def
      list_applied_migration_files_table[OF table] truthy_simps Let_def
      discovered_def applied_def)

theorem empty_target_witness:
  "migration_history (engine (example_tool [m1, m2]))
     = Some (example_rows [m1, m2])
   \<and> list_migrations_to_upgrade (example_tool [m1, m2]) (Some '''')
       = (Inr [m3, m4], example_tool [m1, m2])
   \<and> list_migrations_to_downgrade (example_tool [m1, m2]) (Some '''')
       = (Inr [m2, m1], example_tool [m1, m2])"
  using empty_target_is_no_target[OF example_table, of "[m1, m2]"]
  by (simp add: example_discovered example_rows_def example_table)

section \<open>The status report\<close>

lemma map_insort_key: "map f (insort_key f x xs) = insort (f x) (map f xs)"
  by (induction xs) auto

lemma map_sort_key: "map f (sort_key f xs) = sort (map f xs)"
  by (induction xs) (auto simp: map_insort_key)

lemma applied_infos_ok:
  "\<forall>r\<in>set rows. \<exists>c d. parse_filename sp (filename r) = Inr (c, d) \<Longrightarrow>
   \<exists>rv. applied_infos sp rows = Inr rv
      \<and> map info_filename rv = map filename rows
      \<and> map info_executed_at rv = map (\<lambda>r. Some (executed_at r)) rows"
proof (induction rows)
  case Nil then show ?case by simp
next
  case (Cons r rows)
  then obtain rv where "applied_infos sp rows = Inr rv"
    "map info_filename rv = map filename rows"
    "map info_executed_at rv = map (\<lambda>r. Some (executed_at r)) rows" by auto
  moreover from Cons.prems obtain c d where "parse_filename sp (filename r) = Inr (c, d)"
    by auto
  ultimately show ?case by simp
qed

lemma pending_infos_ok:
  "\<forall>f\<in>set files. \<exists>c d. parse_filename sp f = Inr (c, d) \<Longrightarrow>
   \<exists>rv. pending_infos sp files = Inr rv
      \<and> map info_filename rv = files
      \<and> map info_executed_at rv = map (\<lambda>f. None) files"
proof (induction files)
  case Nil then show ?case by simp
next
  case (Cons f files)
  then obtain rv where "pending_infos sp files = Inr rv"
    "map info_filename rv = files"
    "map info_executed_at rv = map (\<lambda>f. None) files" by auto
  moreover from Cons.prems obtain c d where "parse_filename sp f = Inr (c, d)"
    by auto
  ultimately show ?case by simp
qed

lemma select_rows_table:
  "migration_history db = Some rows \<Longrightarrow>
   select_rows \<lparr>conn = db, new = []\<rparr> = Inr (rows, \<lparr>conn = db, new = []\<rparr>)"
  by (simp add: select_rows_def flush_nothing)

text \<open>
  C10. A history limit of 0 is no limit: \<^verbatim>\<open>list_all_migrations\<close> returns for it what it
  returns for \<^verbatim>\<open>None\<close>. Where the table exists and every name parses, that is one
  record for every row of the history, ascending by file name and with its execution
  time, followed by the pending names in ascending order.
\<close>

theorem history_limit_zero_is_unlimited:
  fixes self :: "('s, 'e) MigrationTool"
  defines "discovered \<equiv> list_existing_migration_files (migrations_dir self)"
  assumes table: "migration_history (engine self) = Some rows"
  defines "applied \<equiv> sort (map filename rows)"
  assumes parses: "\<forall>f\<in>set applied \<union> set discovered. \<exists>c d. parse_filename strptime f = Inr (c, d)"
  shows "list_all_migrations strptime self (Some 0) = list_all_migrations strptime self None
       \<and> (\<exists>rv. list_all_migrations strptime self (Some 0) = (Inr rv, self)
             \<and> map info_filename rv = applied @ [f \<leftarrow> discovered. f \<notin> set applied]
             \<and> map info_executed_at rv
                 = map (\<lambda>r. Some (executed_at r)) (sort_key filename rows)
                   @ map (\<lambda>f. None) [f \<leftarrow> discovered. f \<notin> set applied])"
proof -
  have same: "list_all_migrations strptime self (Some 0) = list_all_migrations strptime self None"
    by (simp add: list_all_migrations_def)
  have "\<forall>r\<in>set (sort_key filename rows). \<exists>c d. parse_filename strptime (filename r) = Inr (c, d)"
    using parses by (simp add: applied_def)
  from applied_infos_ok[OF this] obtain rv1 where rv1:
    "applied_infos strptime (sort_key filename rows) = Inr rv1"
    "map info_filename rv1 = applied"
    "map info_executed_at rv1 = map (\<lambda>r. Some (executed_at r)) (sort_key filename rows)"
    by (auto simp: applied_def map_sort_key)
  have "\<forall>f\<in>set [f \<leftarrow> discovered. f \<notin> set applied]. \<exists>c d. parse_filename strptime f = Inr (c, d)"
    using parses by simp
  from pending_infos_ok[OF this] obtain rv2 where rv2:
    "pending_infos strptime [f \<leftarrow> discovered. f \<notin> set applied] = Inr rv2"
    "map info_filename rv2 = [f \<leftarrow> discovered. f \<notin> set applied]"
    "map info_executed_at rv2 = map (\<lambda>f. None) [f \<leftarrow> discovered. f \<notin> set applied]"
    by auto
  have up: "list_migrations_to_upgrade self None
              = (Inr [f \<leftarrow> discovered. f \<notin> set applied], self)"
    by (simp add: list_migrations_to_upgrade_def list_applied_migration_files_table[OF table]
        truthy_simps Let_def applied_def discovered_def)
  have run: "list_all_migrations strptime self (Some 0) = (Inr (rv1 @ rv2), self)"
    by (simp add: list_all_migrations_def Session_begin_def select_rows_table[OF table]
        flush_nothing select_all_def rv1(1) up rv2(1))
  have "map info_filename (rv1 @ rv2) = applied @ [f \<leftarrow> discovered. f \<notin> set applied]"
    "map info_executed_at (rv1 @ rv2)
       = map (\<lambda>r. Some (executed_at r)) (sort_key filename rows)
         @ map (\<lambda>f. None) [f \<leftarrow> discovered. f \<notin> set applied]"
    using rv1(2,3) rv2(2,3) by simp_all
  with same run show ?thesis by blast
qed

theorem history_limit_zero_witness:
  "migration_history (engine (example_tool [m1, m2])) = Some (example_rows [m1, m2])
   \<and> (\<exists>rv. list_all_migrations example_strptime (example_tool [m1, m2]) (Some 0)
               = (Inr rv, example_tool [m1, m2])
           \<and> map info_filename rv = [m1, m2, m3, m4]
           \<and> map info_executed_at rv = [Some example_time, Some example_time, None, None])"
proof -
  have p: "\<forall>f\<in>set (sort (map filename (example_rows [m1, m2])))
               \<union> set (list_existing_migration_files (migrations_dir (example_tool [m1, m2]))).
             \<exists>c d. parse_filename example_strptime f = Inr (c, d)"
    by (simp add: example_discovered example_rows_def parse_filename_def before_dot_def
        example_strptime_def)
  from history_limit_zero_is_unlimited[OF example_table p]
  have "\<exists>rv. list_all_migrations example_strptime (example_tool [m1, m2]) (Some 0)
               = (Inr rv, example_tool [m1, m2])
           \<and> map info_filename rv = [m1, m2, m3, m4]
           \<and> map info_executed_at rv = [Some example_time, Some example_time, None, None]"
    by (elim conjE) (simp add: example_discovered example_rows_def)
  then show ?thesis by (simp add: example_table)
qed

section \<open>Generated names sort by creation time\<close>

subsection \<open>Zero-padded fields compare as their numbers\<close>

lemma length_zero_padded [simp]: "length (zero_padded w n) = w"
  by (induction w arbitrary: n) auto

lemma append_less_fixed:
  fixes a b :: "'a::linorder list"
  shows "length a = length b \<Longrightarrow> (a @ x < b @ y) = (a < b \<or> a = b \<and> x < y)"
  by (induction a b rule: list_induct2) auto

lemma of_char_digit: "d < 10 \<Longrightarrow> (of_char (digit d) :: nat) = 48 + d"
  by (simp add: digit_def)

lemma digit_less: "d < 10 \<Longrightarrow> d' < 10 \<Longrightarrow> (digit d < digit d') = (d < d')"
  by (simp add: less_char_def of_char_digit)

lemma digit_eq: "d < 10 \<Longrightarrow> d' < 10 \<Longrightarrow> (digit d = digit d') = (d = d')"
proof
  assume "d < 10" "d' < 10" "digit d = digit d'"
  then have "(of_char (digit d) :: nat) = of_char (digit d')" by simp
  with \<open>d < 10\<close> \<open>d' < 10\<close> show "d = d'" by (simp add: of_char_digit)
qed simp

lemma div_mod_10_less:
  "((n::nat) < m) = (n div 10 < m div 10 \<or> n div 10 = m div 10 \<and> n mod 10 < m mod 10)"
proof -
  define a b c d where "a = n div 10" and "b = n mod 10" and "c = m div 10" and "d = m mod 10"
  have "n = 10 * a + b" "b < 10" "m = 10 * c + d" "d < 10"
    by (simp_all add: a_def b_def c_def d_def)
  then have "(n < m) = (a < c \<or> a = c \<and> b < d)" by linarith
  then show ?thesis by (simp add: a_def b_def c_def d_def)
qed

lemma div_mod_10_eq:
  "((n::nat) = m) = (n div 10 = m div 10 \<and> n mod 10 = m mod 10)"
proof
  assume "n = m"
  then show "n div 10 = m div 10 \<and> n mod 10 = m mod 10" by simp
next
  assume r: "n div 10 = m div 10 \<and> n mod 10 = m mod 10"
  have "\<not> n < m" using div_mod_10_less[of n m] r by simp
  moreover have "\<not> m < n" using div_mod_10_less[of m n] r by simp
  ultimately show "n = m" by simp
qed

lemma zero_padded_eq:
  "n < 10 ^ w \<Longrightarrow> m < 10 ^ w \<Longrightarrow> (zero_padded w n = zero_padded w m) = (n = m)"
proof (induction w arbitrary: n m)
  case 0 then show ?case by simp
next
  case (Suc w)
  then have "n div 10 < 10 ^ w" "m div 10 < 10 ^ w" by (simp_all add: less_mult_imp_div_less mult.commute)
  from Suc.IH[OF this] show ?case
    using div_mod_10_eq[of n m] by (simp add: digit_eq)
qed

lemma zero_padded_less:
  "n < 10 ^ w \<Longrightarrow> m < 10 ^ w \<Longrightarrow> (zero_padded w n < zero_padded w m) = (n < m)"
proof (induction w arbitrary: n m)
  case 0 then show ?case by simp
next
  case (Suc w)
  then have b: "n div 10 < 10 ^ w" "m div 10 < 10 ^ w" by (simp_all add: less_mult_imp_div_less mult.commute)
  from Suc.IH[OF b] zero_padded_eq[OF b] show ?case
    using div_mod_10_less[of n m] by (simp add: append_less_fixed digit_less)
qed

lemma strftime_DATETIME_FMT:
  "strftime DATETIME_FMT t =
     zero_padded 4 (year t) @ zero_padded 2 (month t) @ zero_padded 2 (day t) @ CHR ''_'' #
     zero_padded 2 (hour t) @ zero_padded 2 (minute t) @ CHR ''_'' #
     zero_padded 2 (second t) @ zero_padded 6 (microsecond t)"
  by (simp add: DATETIME_FMT_def directive_def)

lemma field_step:
  "n < 10 ^ w \<Longrightarrow> m < 10 ^ w \<Longrightarrow>
   (zero_padded w n @ x < zero_padded w m @ y) = (n < m \<or> n = m \<and> x < y)"
  by (simp add: append_less_fixed zero_padded_less zero_padded_eq)

lemma migration_filename_less:
  assumes "valid_datetime t1" "valid_datetime t2" "datetime_less t1 t2"
  shows "migration_filename t1 d1 < migration_filename t2 d2"
proof -
  have bounds:
    "year t1 < 10 ^ 4" "year t2 < 10 ^ 4" "month t1 < 10 ^ 2" "month t2 < 10 ^ 2"
    "day t1 < 10 ^ 2" "day t2 < 10 ^ 2" "hour t1 < 10 ^ 2" "hour t2 < 10 ^ 2"
    "minute t1 < 10 ^ 2" "minute t2 < 10 ^ 2" "second t1 < 10 ^ 2" "second t2 < 10 ^ 2"
    "microsecond t1 < 10 ^ 6" "microsecond t2 < 10 ^ 6"
    using assms(1,2) by (simp_all add: valid_datetime_def)
  note cmp = field_step[OF bounds(1,2)] field_step[OF bounds(3,4)] field_step[OF bounds(5,6)]
    field_step[OF bounds(7,8)] field_step[OF bounds(9,10)] field_step[OF bounds(11,12)]
    field_step[OF bounds(13,14)]
  define R where "R = (''__'' @ replace_spaces d1 @ ''.py'' < ''__'' @ replace_spaces d2 @ ''.py'')"
  have goal: "(migration_filename t1 d1 < migration_filename t2 d2) =
    (year t1 < year t2 \<or> year t1 = year t2 \<and>
     (month t1 < month t2 \<or> month t1 = month t2 \<and>
      (day t1 < day t2 \<or> day t1 = day t2 \<and>
       (hour t1 < hour t2 \<or> hour t1 = hour t2 \<and>
        (minute t1 < minute t2 \<or> minute t1 = minute t2 \<and>
         (second t1 < second t2 \<or> second t1 = second t2 \<and>
          (microsecond t1 < microsecond t2 \<or> microsecond t1 = microsecond t2 \<and> R)))))))"
    unfolding migration_filename_def strftime_DATETIME_FMT R_def
    by (simp only: append_assoc append_Cons append_Nil cmp Cons_less_Cons less_irrefl
        simp_thms)
  have prem:
    "(year t1 < year t2 \<or> year t1 = year t2 \<and>
     (month t1 < month t2 \<or> month t1 = month t2 \<and>
      (day t1 < day t2 \<or> day t1 = day t2 \<and>
       (hour t1 < hour t2 \<or> hour t1 = hour t2 \<and>
        (minute t1 < minute t2 \<or> minute t1 = minute t2 \<and>
         (second t1 < second t2 \<or> second t1 = second t2 \<and>
          (microsecond t1 < microsecond t2)))))))"
    using assms(3) by (simp add: datetime_less_def datetime_fields_def)
  from prem show ?thesis unfolding goal by blast
qed

lemma digit_not_separator: "d < 10 \<Longrightarrow> digit d \<noteq> CHR ''_'' \<and> digit d \<noteq> CHR ''.''"
proof -
  assume d: "d < 10"
  have "(of_char (digit d) :: nat) \<noteq> of_char CHR ''_''" "(of_char (digit d) :: nat) \<noteq> of_char CHR ''.''"
    using d by (simp_all add: of_char_digit)
  then show ?thesis by auto
qed

lemma zero_padded_2: "zero_padded 2 n = [digit (n div 10 mod 10), digit (n mod 10)]"
proof -
  have "zero_padded (Suc (Suc 0)) n = [digit (n div 10 mod 10), digit (n mod 10)]" by simp
  moreover have "(2::nat) = Suc (Suc 0)" by simp
  ultimately show ?thesis by (simp only:)
qed

lemma zero_padded_4:
  "zero_padded 4 n = [digit (n div 10 div 10 div 10 mod 10), digit (n div 10 div 10 mod 10),
                      digit (n div 10 mod 10), digit (n mod 10)]"
proof -
  have "zero_padded (Suc (Suc (Suc (Suc 0)))) n
          = [digit (n div 10 div 10 div 10 mod 10), digit (n div 10 div 10 mod 10),
             digit (n div 10 mod 10), digit (n mod 10)]" by simp
  moreover have "(4::nat) = Suc (Suc (Suc (Suc 0)))" by simp
  ultimately show ?thesis by (simp only:)
qed

lemma migration_filename_head:
  "\<exists>rest. migration_filename t d = digit (year t div 10 div 10 div 10 mod 10) # rest"
  by (simp add: migration_filename_def strftime_DATETIME_FMT zero_padded_4)

lemma migration_filename_listed:
  "is_listed \<lparr>name = migration_filename t d, artifact = ModuleFile m\<rparr>"
proof -
  obtain rest where r: "migration_filename t d = digit (year t div 10 div 10 div 10 mod 10) # rest"
    using migration_filename_head by blast
  have "digit (year t div 10 div 10 div 10 mod 10) \<noteq> CHR ''_''"
    "digit (year t div 10 div 10 div 10 mod 10) \<noteq> CHR ''.''"
    using digit_not_separator[of "year t div 10 div 10 div 10 mod 10"] by simp_all
  with r show ?thesis
    by (simp add: is_listed_def is_file_def startswith_def)
qed

text \<open>
  C7. Two migrations generated at times \<open>t1\<close> before \<open>t2\<close>, with any descriptions, get
  file names that compare as the times do. So when a tool generates one and then the
  other, the sorted listing of the directory has the first before the second, and the
  plans, which keep that order, run it first. The times are datetimes of the years with
  four digits.
\<close>

theorem generated_names_chronological:
  fixes self :: "('s, 'e) MigrationTool"
  assumes "valid_datetime t1" "valid_datetime t2" "datetime_less t1 t2"
  shows "migration_filename t1 d1 < migration_filename t2 d2
       \<and> (clock self (tick self) = t1 \<and> clock self (Suc (tick self)) = t2 \<longrightarrow>
            (case generate_migration self d1 of (n1, self1) \<Rightarrow>
             case generate_migration self1 d2 of (n2, self2) \<Rightarrow>
               n1 = migration_filename t1 d1 \<and> n2 = migration_filename t2 d2
             \<and> (\<exists>i j. list_index (list_existing_migration_files (migrations_dir self2)) n1 = Some i
                    \<and> list_index (list_existing_migration_files (migrations_dir self2)) n2 = Some j
                    \<and> i < j)))"
proof -
  let ?n1 = "migration_filename t1 d1" and ?n2 = "migration_filename t2 d2"
  have less: "?n1 < ?n2" by (rule migration_filename_less[OF assms])
  have second: "case generate_migration self d1 of (n1, self1) \<Rightarrow>
             case generate_migration self1 d2 of (n2, self2) \<Rightarrow>
               n1 = ?n1 \<and> n2 = ?n2
             \<and> (\<exists>i j. list_index (list_existing_migration_files (migrations_dir self2)) n1 = Some i
                    \<and> list_index (list_existing_migration_files (migrations_dir self2)) n2 = Some j
                    \<and> i < j)"
    if clk: "clock self (tick self) = t1" "clock self (Suc (tick self)) = t2"
  proof -
    let ?e1 = "\<lparr>name = ?n1, artifact = ModuleFile template\<rparr> :: ('s, 'e) dir_entry"
    let ?e2 = "\<lparr>name = ?n2, artifact = ModuleFile template\<rparr> :: ('s, 'e) dir_entry"
    let ?dir1 = "?e1 # filter (\<lambda>f. name f \<noteq> ?n1) (migrations_dir self)"
    let ?dir2 = "?e2 # filter (\<lambda>f. name f \<noteq> ?n2) ?dir1"
    let ?self1 = "self\<lparr>migrations_dir := ?dir1, tick := Suc (tick self)\<rparr>"
    let ?self2 = "?self1\<lparr>migrations_dir := ?dir2, tick := Suc (Suc (tick self))\<rparr>"
    let ?D = "list_existing_migration_files ?dir2"
    have g1: "generate_migration self d1 = (?n1, ?self1)"
      using clk by (simp add: generate_migration_def Let_def)
    have g2: "generate_migration ?self1 d2 = (?n2, ?self2)"
      using clk by (simp add: generate_migration_def Let_def)
    have ne: "?n1 \<noteq> ?n2" using less by simp
    have "?e1 \<in> set ?dir2" "?e2 \<in> set ?dir2" using ne by simp_all
    then have mem: "?n1 \<in> set ?D" "?n2 \<in> set ?D"
      unfolding list_existing_migration_files_def set_sort set_map set_filter
      using migration_filename_listed[of t1 d1 template] migration_filename_listed[of t2 d2 template]
      by (force)+
    from mem(1) obtain i where i: "list_index ?D ?n1 = Some i"
      using list_index_None[of ?D ?n1] by (cases "list_index ?D ?n1") auto
    from mem(2) obtain j where j: "list_index ?D ?n2 = Some j"
      using list_index_None[of ?D ?n2] by (cases "list_index ?D ?n2") auto
    from list_index_sorted_le[OF sorted_list_existing j i] less have "i < j" by auto
    with i j g1 g2 show ?thesis by simp
  qed
  show ?thesis
  proof (intro conjI impI)
    show "?n1 < ?n2" by (rule less)
  next
    assume c: "clock self (tick self) = t1 \<and> clock self (Suc (tick self)) = t2"
    show "case generate_migration self d1 of (n1, self1) \<Rightarrow>
             case generate_migration self1 d2 of (n2, self2) \<Rightarrow>
               n1 = ?n1 \<and> n2 = ?n2
             \<and> (\<exists>i j. list_index (list_existing_migration_files (migrations_dir self2)) n1 = Some i
                    \<and> list_index (list_existing_migration_files (migrations_dir self2)) n2 = Some j
                    \<and> i < j)"
      by (rule second[OF conjunct1[OF c] conjunct2[OF c]])
  qed
qed

theorem generated_names_chronological_witness:
  "valid_datetime (example_clock 0) \<and> valid_datetime (example_clock 1)
   \<and> datetime_less (example_clock 0) (example_clock 1)
   \<and> clock (example_tool []) (tick (example_tool [])) = example_clock 0
   \<and> clock (example_tool []) (Suc (tick (example_tool []))) = example_clock 1
   \<and> migration_filename (example_clock 0) ''zzz first''
       = ''20240115_1030_00000000__zzz_first.py''
   \<and> migration_filename (example_clock 1) ''aaa second''
       = ''20240115_1130_00000000__aaa_second.py''
   \<and> ''20240115_1030_00000000__zzz_first.py'' < ''20240115_1130_00000000__aaa_second.py''
   \<and> list_existing_migration_files
        (migrations_dir (snd (generate_migration
           (snd (generate_migration (example_tool []) ''zzz first'')) ''aaa second'')))
       = [m1, ''20240115_1030_00000000__zzz_first.py'', m2,
          ''20240115_1130_00000000__aaa_second.py'', m3, m4]"
proof -
  have v: "valid_datetime (example_clock 0)" "valid_datetime (example_clock 1)"
    "datetime_less (example_clock 0) (example_clock 1)"
    by (simp_all add: valid_datetime_def example_clock_def example_time_def datetime_less_def
        datetime_fields_def)
  have c: "clock (example_tool []) (tick (example_tool [])) = example_clock 0"
    "clock (example_tool []) (Suc (tick (example_tool []))) = example_clock 1"
    by (simp_all add: example_tool_def)
  have n: "migration_filename (example_clock 0) ''zzz first''
       = ''20240115_1030_00000000__zzz_first.py''"
    "migration_filename (example_clock 1) ''aaa second''
       = ''20240115_1130_00000000__aaa_second.py''"
    by code_simp+
  from generated_names_chronological[OF v, of "''zzz first''" "''aaa second''" "example_tool []"]
  have l: "migration_filename (example_clock 0) ''zzz first''
          < migration_filename (example_clock 1) ''aaa second''" by (rule conjunct1)
  have d: "list_existing_migration_files
        (migrations_dir (snd (generate_migration
           (snd (generate_migration (example_tool []) ''zzz first'')) ''aaa second'')))
       = [m1, ''20240115_1030_00000000__zzz_first.py'', m2,
          ''20240115_1130_00000000__aaa_second.py'', m3, m4]"
    by code_simp
  from v c n l d show ?thesis by (simp only: simp_thms)
qed

section \<open>Execution: one unit, one transaction\<close>

subsection \<open>What one step does\<close>

lemma apply_migration_save:
  "apply_migration f cap save_migration_history self =
     (case cap (schema (engine self)) of
        Inl e \<Rightarrow> (Inl (Raised e), self\<lparr>tick := Suc (tick self)\<rparr>)
      | Inr sch \<Rightarrow>
          (case migration_history (engine self) of
             None \<Rightarrow> (Inl OperationalError, self\<lparr>tick := Suc (tick self)\<rparr>)
           | Some rows \<Rightarrow>
               if f \<in> set (map filename rows)
               then (Inl IntegrityError, self\<lparr>tick := Suc (tick self)\<rparr>)
               else (Inr f,
                     self\<lparr>engine := \<lparr>schema = sch,
                                      migration_history =
                                        Some (rows @ [\<lparr>filename = f,
                                                       executed_at = clock self (tick self)\<rparr>])\<rparr>,
                          tick := Suc (tick self)\<rparr>)))"
  by (simp add: apply_migration_def Session_begin_def call_migration_def
      save_migration_history_def session_add_def flush_def insert_row_def
      split: sum.splits option.splits)

lemma apply_migration_delete:
  "apply_migration f cap delete_migration_history self =
     (case cap (schema (engine self)) of
        Inl e \<Rightarrow> (Inl (Raised e), self\<lparr>tick := Suc (tick self)\<rparr>)
      | Inr sch \<Rightarrow>
          (case migration_history (engine self) of
             None \<Rightarrow> (Inl OperationalError, self\<lparr>tick := Suc (tick self)\<rparr>)
           | Some rows \<Rightarrow>
               (Inr f,
                self\<lparr>engine := \<lparr>schema = sch,
                                 migration_history =
                                   Some (filter (\<lambda>r. filename r \<noteq> f) rows)\<rparr>,
                     tick := Suc (tick self)\<rparr>)))"
  by (auto simp add: apply_migration_def Session_begin_def call_migration_def
      delete_migration_history_def delete_where_filename_def flush_def
      split: sum.splits option.splits)


lemma lazy_execute_append:
  "lazy_execute (xs @ zs) up self =
     (case lazy_execute xs up self of
        (ys, None, self1) \<Rightarrow>
          (case lazy_execute zs up self1 of (ys', r, self2) \<Rightarrow> (ys @ ys', r, self2))
      | (ys, Some e, self1) \<Rightarrow> (ys, Some e, self1))"
  by (induction xs arbitrary: self)
     (auto split: sum.splits prod.splits option.splits)

lemma load_cong: "migrations_dir a = migrations_dir b \<Longrightarrow> load a f = load b f"
  by (simp add: load_def)

lemma apply_migration_dir:
  "apply_migration f cap upd self = (r, self') \<Longrightarrow>
   migrations_dir self' = migrations_dir self \<and> clock self' = clock self"
  by (auto simp add: apply_migration_def split: sum.splits prod.splits)

lemma lazy_execute_dir:
  "lazy_execute fs up self = (ys, r, self') \<Longrightarrow>
   migrations_dir self' = migrations_dir self \<and> clock self' = clock self"
proof (induction fs arbitrary: self ys r self')
  case Nil then show ?case by simp
next
  case (Cons f fs)
  show ?case
  proof (cases "load self f")
    case (Inl e) with Cons.prems show ?thesis by simp
  next
    case (Inr m)
    let ?a = "apply_migration f (if up then upgrade m else downgrade m)
                (if up then save_migration_history else delete_migration_history) self"
    obtain res s1 where a: "?a = (res, s1)" by (cases ?a)
    note d = apply_migration_dir[OF a]
    show ?thesis
    proof (cases res)
      case (Inl e) with Cons.prems Inr a d show ?thesis by simp
    next
      case (Inr y)
      obtain ys' r' s2 where l: "lazy_execute fs up s1 = (ys', r', s2)"
        by (cases "lazy_execute fs up s1")
      from Cons.IH[OF l] d Cons.prems \<open>load self f = Inr m\<close> a Inr l show ?thesis by simp
    qed
  qed
qed

lemma upgrade_step_success:
  assumes "apply_migration f cap save_migration_history self = (Inr y, self')"
  shows "y = f \<and> recorded (engine self') = insert f (recorded (engine self))
       \<and> cap (schema (engine self)) = Inr (schema (engine self'))"
  using assms
  by (auto simp add: apply_migration_save recorded_def split: sum.splits option.splits if_splits)

lemma lazy_execute_upgrade_success:
  "lazy_execute fs True self = (ys, None, self') \<Longrightarrow>
   ys = fs \<and> recorded (engine self') = recorded (engine self) \<union> set fs"
proof (induction fs arbitrary: self ys self')
  case Nil then show ?case by simp
next
  case (Cons f fs)
  show ?case
  proof (cases "load self f")
    case (Inl e) with Cons.prems show ?thesis by simp
  next
    case (Inr m)
    let ?a = "apply_migration f (upgrade m) save_migration_history self"
    obtain res s1 where a: "?a = (res, s1)" by (cases ?a)
    show ?thesis
    proof (cases res)
      case (Inl e) with Cons.prems \<open>load self f = Inr m\<close> a show ?thesis by simp
    next
      case (Inr y)
      obtain ys' r' s2 where l: "lazy_execute fs True s1 = (ys', r', s2)"
        by (cases "lazy_execute fs True s1")
      with Cons.prems \<open>load self f = Inr m\<close> a Inr
      have e: "ys = y # ys'" "r' = None" "s2 = self'" by simp_all
      from upgrade_step_success[OF a[unfolded Inr]]
      have s: "y = f" "recorded (engine s1) = insert f (recorded (engine self))" by simp_all
      from Cons.IH[OF l[unfolded e(2,3)]] e s show ?thesis by auto
    qed
  qed
qed

subsection \<open>Stopping at the first failure\<close>

text \<open>
  C3, as the code has it. Let the units of \<open>pre\<close> upgrade without an exception, and let
  the upgrade function of the next unit \<open>uk\<close> raise \<open>e\<close>. Then executing
  \<open>pre @ uk # post\<close> yields exactly \<open>pre\<close> and ends with \<open>e\<close> itself, as the function
  raised it: no file name is attached. The database is the one the last unit of \<open>pre\<close>
  left: the units of \<open>pre\<close> are recorded, the work of \<open>uk\<close> is rolled back whole, and
  \<open>uk\<close> has no record unless it had one before. The units of \<open>post\<close> are not touched:
  the outcome is that of executing \<open>pre @ [uk]\<close>.
\<close>

theorem lazy_execute_stops_at_first_failure:
  assumes pre: "lazy_execute pre True self = (ys, None, self1)"
      and ld: "load self1 uk = Inr m"
      and fails: "upgrade m (schema (engine self1)) = Inl e"
  shows "\<exists>self2. lazy_execute (pre @ uk # post) True self = (pre, Some (Raised e), self2)
           \<and> engine self2 = engine self1
           \<and> recorded (engine self2) = recorded (engine self) \<union> set pre
           \<and> (uk \<notin> recorded (engine self) \<and> uk \<notin> set pre \<longrightarrow> uk \<notin> recorded (engine self2))
           \<and> lazy_execute (pre @ uk # post) True self = lazy_execute (pre @ [uk]) True self"
proof -
  from lazy_execute_upgrade_success[OF pre]
  have ys: "ys = pre" and rec: "recorded (engine self1) = recorded (engine self) \<union> set pre"
    by simp_all
  have step: "lazy_execute (uk # rest) True self1
                = ([], Some (Raised e), self1\<lparr>tick := Suc (tick self1)\<rparr>)" for rest
    using ld fails by (simp add: apply_migration_save)
  have run: "lazy_execute (pre @ uk # rest) True self
               = (pre, Some (Raised e), self1\<lparr>tick := Suc (tick self1)\<rparr>)" for rest
    by (simp add: lazy_execute_append pre ys step del: lazy_execute.simps)
  show ?thesis
    using run[of post] run[of "[]"] rec by auto
qed

lemma example_run_m1:
  "lazy_execute [m1] True (example_tool [])
     = ([m1], None,
        (example_tool [])\<lparr>engine := \<lparr>schema = 1, migration_history =
                                Some [\<lparr>filename = m1, executed_at = example_clock 0\<rparr>]\<rparr>,
                           tick := 1\<rparr>)"
  by (simp add: load_def example_tool_def example_dir_def apply_migration_save creating_def
      example_rows_def)

theorem lazy_execute_stops_witness:
  "lazy_execute [m1] True (example_tool [])
     = ([m1], None,
        (example_tool [])\<lparr>engine := \<lparr>schema = 1, migration_history =
                                Some [\<lparr>filename = m1, executed_at = example_clock 0\<rparr>]\<rparr>,
                           tick := 1\<rparr>)
   \<and> load ((example_tool [])\<lparr>engine := \<lparr>schema = 1, migration_history =
                                Some [\<lparr>filename = m1, executed_at = example_clock 0\<rparr>]\<rparr>,
                           tick := 1\<rparr>) m2 = Inr failing
   \<and> upgrade failing (1::nat) = Inl ''syntax error''
   \<and> m2 \<notin> recorded (engine (example_tool []))
   \<and> fst (lazy_execute [m1, m2, m3] True (example_tool [])) = [m1]
   \<and> fst (snd (lazy_execute [m1, m2, m3] True (example_tool [])))
       = Some (Raised ''syntax error'')
   \<and> recorded (engine (snd (snd (lazy_execute [m1, m2, m3] True (example_tool []))))) = {m1}"
proof -
  let ?s1 = "(example_tool [])\<lparr>engine := \<lparr>schema = 1, migration_history =
                                Some [\<lparr>filename = m1, executed_at = example_clock 0\<rparr>]\<rparr>,
                           tick := 1\<rparr>"
  have ld: "load ?s1 m2 = Inr failing"
    by (simp add: load_def example_tool_def example_dir_def)
  have f: "upgrade failing (schema (engine ?s1)) = Inl ''syntax error''"
    by (simp add: failing_def)
  have r0: "recorded (engine (example_tool [])) = {}"
    by (simp add: recorded_def example_tool_def example_rows_def)
  from lazy_execute_stops_at_first_failure[OF example_run_m1 ld f, of "[m3]"]
  obtain self2 where
    "lazy_execute [m1, m2, m3] True (example_tool []) = ([m1], Some (Raised ''syntax error''), self2)"
    "recorded (engine self2) = recorded (engine (example_tool [])) \<union> set [m1]"
    by auto
  with example_run_m1 ld f r0 show ?thesis by (simp add: failing_def)
qed

text \<open>
  C3 as stated fails on two counts. The exception that surfaces is the same whether the
  second or the fourth unit failed, so it does not name the unit. And a unit that is
  recorded already, and fails when it is run again, still has its record.
\<close>

theorem lazy_execute_failure_counterexample:
  "fst (snd (lazy_execute [m1, m2, m3] True (example_tool [])))
     = Some (Raised ''syntax error'')
   \<and> fst (snd (lazy_execute [m1, m4, m3] True (example_tool [])))
     = Some (Raised ''syntax error'')
   \<and> fst (snd (lazy_execute [m1] True (example_tool [m1])))
     = Some (Raised ''table already exists'')
   \<and> m1 \<in> recorded (engine (snd (snd (lazy_execute [m1] True (example_tool [m1])))))"
  by (simp add: load_def example_tool_def example_dir_def apply_migration_save creating_def
      failing_def example_rows_def recorded_def)

subsection \<open>The history and the changes in effect\<close>

lemma find_tracked:
  "find (\<lambda>f. name f = x) (map tracked_entry xs)
     = map_option tracked_entry (find (\<lambda>f. name f = x) xs)"
  by (induction xs) (auto simp: tracked_entry_def)

lemma load_tracked:
  "load (tracked_tool self eff) f
     = (case load self f of Inl e \<Rightarrow> Inl e | Inr m \<Rightarrow> Inr (tracked f m))"
proof (cases "find (\<lambda>g. name g = f) (migrations_dir self)")
  case None
  then show ?thesis by (simp add: load_def tracked_tool_def find_tracked)
next
  case (Some g)
  then have "name g = f" by (auto simp: find_Some_iff)
  with Some show ?thesis
    by (simp add: load_def tracked_tool_def find_tracked tracked_entry_def
        split: artifact.splits)
qed

lemma apply_tracked_upgrade:
  "apply_migration f (upgrade (tracked f m)) save_migration_history (tracked_tool self eff)
     = (case apply_migration f (upgrade m) save_migration_history self of
          (Inl e, self') \<Rightarrow> (Inl e, tracked_tool self' eff)
        | (Inr y, self') \<Rightarrow> (Inr y, tracked_tool self' (insert f eff)))"
  by (simp add: apply_migration_save tracked_def tracked_tool_def
      split: sum.splits option.splits)

lemma apply_tracked_downgrade:
  "apply_migration f (downgrade (tracked f m)) delete_migration_history (tracked_tool self eff)
     = (case apply_migration f (downgrade m) delete_migration_history self of
          (Inl e, self') \<Rightarrow> (Inl e, tracked_tool self' eff)
        | (Inr y, self') \<Rightarrow> (Inr y, tracked_tool self' (eff - {f})))"
  by (simp add: apply_migration_delete tracked_def tracked_tool_def
      split: sum.splits option.splits)

lemma upgrade_step:
  "(case apply_migration f cap save_migration_history self of
      (Inl e, self') \<Rightarrow> engine self' = engine self
    | (Inr y, self') \<Rightarrow>
        y = f \<and> cap (schema (engine self)) = Inr (schema (engine self'))
      \<and> f \<notin> recorded (engine self)
      \<and> recorded (engine self') = insert f (recorded (engine self)))"
  by (auto simp add: apply_migration_save recorded_def split: sum.splits option.splits)

lemma downgrade_step:
  "(case apply_migration f cap delete_migration_history self of
      (Inl e, self') \<Rightarrow> engine self' = engine self
    | (Inr y, self') \<Rightarrow>
        y = f \<and> cap (schema (engine self)) = Inr (schema (engine self'))
      \<and> recorded (engine self') = recorded (engine self) - {f})"
  by (auto simp add: apply_migration_delete recorded_def split: sum.splits option.splits)

lemma lazy_execute_tracked:
  "lazy_execute files up (tracked_tool self (recorded (engine self)))
     = (case lazy_execute files up self of
          (ys, r, self') \<Rightarrow> (ys, r, tracked_tool self' (recorded (engine self'))))"
proof (induction files arbitrary: self)
  case Nil
  show ?case by simp
next
  case (Cons f files)
  show ?case
  proof (cases "load self f")
    case (Inl e)
    then show ?thesis by (simp add: load_tracked)
  next
    case (Inr m)
    show ?thesis
    proof (cases up)
      case True
      obtain res s1 where a: "apply_migration f (upgrade m) save_migration_history self = (res, s1)"
        by (cases "apply_migration f (upgrade m) save_migration_history self")
      show ?thesis
      proof (cases res)
        case (Inl e)
        with upgrade_step[where f=f and cap="upgrade m" and self=self] a have "engine s1 = engine self" by simp
        with Inr True a Inl show ?thesis
          by (simp add: load_tracked apply_tracked_upgrade)
      next
        case (Inr y)
        with upgrade_step[where f=f and cap="upgrade m" and self=self] a
        have "recorded (engine s1) = insert f (recorded (engine self))" by simp
        with \<open>load self f = Inr m\<close> True a Inr Cons.IH[of s1] show ?thesis
          by (simp add: load_tracked apply_tracked_upgrade split: prod.splits)
      qed
    next
      case False
      obtain res s1 where a: "apply_migration f (downgrade m) delete_migration_history self = (res, s1)"
        by (cases "apply_migration f (downgrade m) delete_migration_history self")
      show ?thesis
      proof (cases res)
        case (Inl e)
        with downgrade_step[where f=f and cap="downgrade m" and self=self] a have "engine s1 = engine self" by simp
        with Inr False a Inl show ?thesis
          by (simp add: load_tracked apply_tracked_downgrade)
      next
        case (Inr y)
        with downgrade_step[where f=f and cap="downgrade m" and self=self] a
        have "recorded (engine s1) = recorded (engine self) - {f}" by simp
        with \<open>load self f = Inr m\<close> False a Inr Cons.IH[of s1] show ?thesis
          by (simp add: load_tracked apply_tracked_downgrade split: prod.splits)
      qed
    qed
  qed
qed

lemma tracked_tool_state:
  "recorded (engine (tracked_tool self eff)) = recorded (engine self)"
  "in_effect (engine (tracked_tool self eff)) = eff"
  by (simp_all add: tracked_tool_def recorded_def in_effect_def)

text \<open>
  C4. One step commits the migration's change and the change of the history together or
  not at all: when it raises, the database is what it was; when it returns, the schema
  is what the function made of it and the file name is added to (upgrade) or removed from
  (downgrade) the history. So the history follows the changes in effect: executing any
  list of units, in either direction, on the tracked tool does what it does on the tool
  itself, and leaves the set of units in effect equal to the set of recorded file names
  when they were equal at the start.
\<close>

theorem history_matches_changes_in_effect:
  "lazy_execute files up (tracked_tool self (recorded (engine self)))
     = (case lazy_execute files up self of
          (ys, r, self') \<Rightarrow> (ys, r, tracked_tool self' (recorded (engine self'))))
   \<and> in_effect (engine (snd (snd (lazy_execute files up
                                     (tracked_tool self (recorded (engine self)))))))
       = recorded (engine (snd (snd (lazy_execute files up
                                       (tracked_tool self (recorded (engine self)))))))
   \<and> (case apply_migration f cap save_migration_history self of
        (Inl e, self') \<Rightarrow> engine self' = engine self
      | (Inr y, self') \<Rightarrow>
          cap (schema (engine self)) = Inr (schema (engine self'))
        \<and> recorded (engine self') = insert f (recorded (engine self)))
   \<and> (case apply_migration f cap delete_migration_history self of
        (Inl e, self') \<Rightarrow> engine self' = engine self
      | (Inr y, self') \<Rightarrow>
          cap (schema (engine self)) = Inr (schema (engine self'))
        \<and> recorded (engine self') = recorded (engine self) - {f})"
proof (intro conjI)
  show "lazy_execute files up (tracked_tool self (recorded (engine self)))
     = (case lazy_execute files up self of
          (ys, r, self') \<Rightarrow> (ys, r, tracked_tool self' (recorded (engine self'))))"
    by (rule lazy_execute_tracked)
  show "in_effect (engine (snd (snd (lazy_execute files up
                                     (tracked_tool self (recorded (engine self)))))))
       = recorded (engine (snd (snd (lazy_execute files up
                                       (tracked_tool self (recorded (engine self)))))))"
    by (simp add: lazy_execute_tracked tracked_tool_state split: prod.splits)
  show "case apply_migration f cap save_migration_history self of
        (Inl e, self') \<Rightarrow> engine self' = engine self
      | (Inr y, self') \<Rightarrow>
          cap (schema (engine self)) = Inr (schema (engine self'))
        \<and> recorded (engine self') = insert f (recorded (engine self))"
    using upgrade_step[where f=f and cap=cap and self=self] by (auto split: prod.splits sum.splits)
  show "case apply_migration f cap delete_migration_history self of
        (Inl e, self') \<Rightarrow> engine self' = engine self
      | (Inr y, self') \<Rightarrow>
          cap (schema (engine self)) = Inr (schema (engine self'))
        \<and> recorded (engine self') = recorded (engine self) - {f}"
    using downgrade_step[where f=f and cap=cap and self=self] by (auto split: prod.splits sum.splits)
qed

theorem history_matches_changes_witness:
  "fst (lazy_execute [m1, m2, m3] True (tracked_tool (example_tool []) {})) = [m1]
   \<and> in_effect (engine (snd (snd (lazy_execute [m1, m2, m3] True
                                     (tracked_tool (example_tool []) {}))))) = {m1}
   \<and> recorded (engine (snd (snd (lazy_execute [m1, m2, m3] True
                                    (tracked_tool (example_tool []) {}))))) = {m1}"
proof -
  have r0: "recorded (engine (example_tool [])) = {}"
    by (simp add: recorded_def example_tool_def example_rows_def)
  have run: "lazy_execute [m1, m2, m3] True (example_tool [])
     = ([m1], Some (Raised ''syntax error''),
        (example_tool [])\<lparr>engine := \<lparr>schema = 1, migration_history =
                                Some [\<lparr>filename = m1, executed_at = example_clock 0\<rparr>]\<rparr>,
                           tick := 2\<rparr>)"
    by (simp add: load_def example_tool_def example_dir_def apply_migration_save creating_def
        failing_def example_rows_def)
  let ?s = "(example_tool [])\<lparr>engine := \<lparr>schema = 1, migration_history =
                                Some [\<lparr>filename = m1, executed_at = example_clock 0\<rparr>]\<rparr>,
                           tick := 2\<rparr>"
  from history_matches_changes_in_effect[of "[m1, m2, m3]" True "example_tool []"]
  have "lazy_execute [m1, m2, m3] True (tracked_tool (example_tool []) {})
     = (case lazy_execute [m1, m2, m3] True (example_tool []) of
          (ys, r, self') \<Rightarrow> (ys, r, tracked_tool self' (recorded (engine self'))))"
    unfolding r0 by (rule conjunct1)
  then have E: "lazy_execute [m1, m2, m3] True (tracked_tool (example_tool []) {})
     = ([m1], Some (Raised ''syntax error''), tracked_tool ?s (recorded (engine ?s)))"
    unfolding run by (simp only: prod.case)
  have r1: "recorded (engine ?s) = {m1}"
    by (simp add: recorded_def)
  show ?thesis
    unfolding E r1 by (simp add: tracked_tool_def in_effect_def recorded_def)
qed

end
